theory Spec2Isabelle
  imports
    Complex_Main
    "HOL-Library.Sublist"
    "HOL-Library.Multiset"
    "HOL-Library.Char_ord"
    "HOL-Library.List_Lexorder"
    "HOL-Library.Product_Lexorder"
begin

section \<open>JavaScript values\<close>

text \<open>
  The controllers receive untyped request data, and several of their decisions rest on
  JavaScript truthiness and on the coercions of \<open><\<close> and \<open><=\<close>. The values a JSON body or
  a multipart form can carry are therefore modelled as they are, not as typed fields.

  Numbers: a double is NaN, an infinity or a rational. The controllers only compare
  numbers with zero, test them for truthiness and store them, so the rounding of doubles
  plays no part and \<open>-0\<close> is identified with \<open>0\<close>.
  Strings are lists of 8-bit characters.
\<close>

datatype jsnum = NaN | NegInf | Fin rat | PosInf

datatype jsval =
    JUndefined
  | JNull
  | JBool bool
  | JNum jsnum
  | JStr string
  | JArr "jsval list"
  | JObj "(string \<times> jsval) list"

text \<open>An object is read by property name; a missing property is \<open>undefined\<close>.\<close>

type_synonym obj = "string \<Rightarrow> jsval"

definition no_fields :: obj where
  "no_fields = (\<lambda>_. JUndefined)"

text \<open>Truthiness: \<open>undefined\<close>, \<open>null\<close>, \<open>false\<close>, \<open>0\<close>, \<open>NaN\<close> and \<open>""\<close> are falsy.\<close>

fun truthy :: "jsval \<Rightarrow> bool" where
  "truthy JUndefined = False"
| "truthy JNull = False"
| "truthy (JBool b) = b"
| "truthy (JNum n) = (n \<noteq> NaN \<and> n \<noteq> Fin 0)"
| "truthy (JStr s) = (s \<noteq> [])"
| "truthy (JArr _) = True"
| "truthy (JObj _) = True"

text \<open>\<open>n <= 0\<close> and \<open>n < 0\<close> on numbers; a comparison with NaN is false.\<close>

fun num_le0 :: "jsnum \<Rightarrow> bool" where
  "num_le0 NaN = False"
| "num_le0 NegInf = True"
| "num_le0 (Fin r) = (r \<le> 0)"
| "num_le0 PosInf = False"

fun num_lt0 :: "jsnum \<Rightarrow> bool" where
  "num_lt0 NaN = False"
| "num_lt0 NegInf = True"
| "num_lt0 (Fin r) = (r < 0)"
| "num_lt0 PosInf = False"

text \<open>\<open>String.prototype.trim\<close>, \<open>includes\<close> and \<open>startsWith\<close>.\<close>

definition is_space :: "char \<Rightarrow> bool" where
  "is_space c = (c \<in> set [CHR 0x09, CHR 0x0A, CHR 0x0B, CHR 0x0C, CHR 0x0D, CHR 0x20, CHR 0xA0])"

definition trim :: "string \<Rightarrow> string" where
  "trim s = rev (dropWhile is_space (rev (dropWhile is_space s)))"

fun str_includes :: "string \<Rightarrow> string \<Rightarrow> bool" where
  "str_includes [] t = (t = [])"
| "str_includes (c # cs) t = (prefix t (c # cs) \<or> str_includes cs t)"

definition startsWith :: "string \<Rightarrow> string \<Rightarrow> bool" where
  "startsWith s t = prefix t s"

section \<open>Stored documents and responses\<close>

text \<open>
  The three collections hold documents in the store's natural order. Identifiers are the
  store's own (\<open>_id\<close>), and the store is taken to answer every query. Deleting a
  category is modelled from the identifier text of the request; the product controllers
  are modelled from the identifier the store has read from it.
\<close>

record product =
  ident :: nat
  name :: string
  price :: jsnum
  category :: string
  stock :: jsnum
  images :: "string list"

record category_doc =
  cat_id :: nat
  cat_name :: string

record user =
  user_id :: nat
  username :: string
  full_name :: string
  email :: string

text \<open>
  The state is the store together with a log of the calls made to the media host
  (\<open>cloudinary.uploader.upload\<close>), one entry per call, the source path or URL of each.
\<close>

record state =
  products :: "product list"
  categories :: "category_doc list"
  users :: "user list"
  uploads :: "string list"
  next_id :: nat

record pagination =
  currentPage :: nat
  totalPages :: nat
  totalItems :: nat
  itemsPerPage :: nat

text \<open>
  The JSON bodies the controllers send: a failure with a message and an error code, a
  failure with a message and a per-field error map (in insertion order), and the
  successes.
\<close>

datatype payload =
    Fail string string
  | Invalid string "(string \<times> string) list"
  | Done string
  | Done_product string product
  | Listing "product list" pagination

datatype response = Response nat payload

definition server_error :: response where
  "server_error = Response 500 (Fail ''Server error'' ''SERVER_ERROR'')"

section \<open>Store queries\<close>

text \<open>\<open>Model.findById\<close> and \<open>Model.findOne\<close>: the first document that matches.\<close>

definition Category_findById :: "state \<Rightarrow> nat \<Rightarrow> category_doc option" where
  "Category_findById st i = find (\<lambda>c. cat_id c = i) (categories st)"

definition Category_findOne_name :: "state \<Rightarrow> string \<Rightarrow> category_doc option" where
  "Category_findOne_name st n = find (\<lambda>c. cat_name c = n) (categories st)"

definition Product_findById :: "state \<Rightarrow> nat \<Rightarrow> product option" where
  "Product_findById st i = find (\<lambda>p. ident p = i) (products st)"

definition Product_findOne_category :: "state \<Rightarrow> string \<Rightarrow> product option" where
  "Product_findOne_category st n = find (\<lambda>p. category p = n) (products st)"

text \<open>\<open>Category.findByIdAndDelete\<close> removes the first document with the identifier.\<close>

fun delete_first :: "('a \<Rightarrow> bool) \<Rightarrow> 'a list \<Rightarrow> 'a list" where
  "delete_first P [] = []"
| "delete_first P (x # xs) = (if P x then xs else x # delete_first P xs)"

definition Category_findByIdAndDelete :: "state \<Rightarrow> nat \<Rightarrow> state" where
  "Category_findByIdAndDelete st i =
     st\<lparr>categories := delete_first (\<lambda>c. cat_id c = i) (categories st)\<rparr>"

section \<open>The runtime and the libraries\<close>

text \<open>
  What the controllers call but the repository does not define is a parameter of the
  model, so that every theorem holds whatever these functions return:
  \<^item> \<open>ToNumber_other\<close>: the numeric coercion of a non-empty string, an array or an
    object, as \<open><\<close> and \<open><=\<close> apply it (the empty string is \<open>0\<close>);
  \<^item> \<open>parseFloat\<close>, \<open>parseInt\<close>: the global functions, on any value;
  \<^item> \<open>JSON_parse\<close>: \<open>JSON.parse\<close>, \<open>None\<close> when it throws;
  \<^item> \<open>cloudinary_upload\<close>: \<open>cloudinary.uploader.upload\<close> as called after the earlier
    calls in the log, the \<open>secure_url\<close> of the result, \<open>None\<close> when it throws;
  \<^item> \<open>jwt_verify\<close>: \<open>jwt.verify\<close> with the configured secret, the user identifier
    embedded in the token, \<open>None\<close> when it throws;
  \<^item> \<open>regex_query\<close>: the store's case-insensitive \<open>$regex\<close> match for a pattern,
    \<open>None\<close> when the store rejects the pattern;
  \<^item> \<open>sort_other\<close>: the store's \<open>sort\<close> for a key that is not one of the four scalar
    fields of a product, \<open>None\<close> when the store rejects it;
  \<^item> \<open>window_other\<close>: what \<open>skip\<close>, \<open>limit\<close> and the page count give when the page or
    the limit is not a positive integer;
  \<^item> \<open>cast_ObjectId\<close>: the identifier that the store reads from the text of a request
    (\<open>req.params.id\<close>), \<open>None\<close> when the text is no identifier and the query throws.
\<close>

record runtime =
  ToNumber_other :: "jsval \<Rightarrow> jsnum"
  parseFloat :: "jsval \<Rightarrow> jsnum"
  parseInt :: "jsval \<Rightarrow> jsnum"
  JSON_parse :: "jsval \<Rightarrow> jsval option"
  cloudinary_upload :: "string list \<Rightarrow> string \<Rightarrow> string option"
  jwt_verify :: "string \<Rightarrow> nat option"
  regex_query :: "string \<Rightarrow> (string \<Rightarrow> bool) option"
  sort_other :: "string \<Rightarrow> bool \<Rightarrow> product list \<Rightarrow> product list option"
  window_other :: "jsnum \<Rightarrow> jsnum \<Rightarrow> product list \<Rightarrow> response"
  cast_ObjectId :: "string \<Rightarrow> nat option"

definition ToNumber :: "runtime \<Rightarrow> jsval \<Rightarrow> jsnum" where
  "ToNumber rt v =
     (case v of
        JUndefined \<Rightarrow> NaN
      | JNull \<Rightarrow> Fin 0
      | JBool b \<Rightarrow> Fin (if b then 1 else 0)
      | JNum n \<Rightarrow> n
      | JStr s \<Rightarrow> if s = [] then Fin 0 else ToNumber_other rt v
      | _ \<Rightarrow> ToNumber_other rt v)"

text \<open>\<open>v.trim()\<close>: only a string has the method; on any other value the call throws.\<close>

definition js_trim :: "jsval \<Rightarrow> string option" where
  "js_trim v = (case v of JStr s \<Rightarrow> Some (trim s) | _ \<Rightarrow> None)"

section \<open>Category deletion\<close>

text \<open>
  \<open>deleteCategory\<close> (categoryController.js, lines 195-234). \<open>Category.findById\<close> throws
  when \<open>req.params.id\<close> is no identifier; the \<open>catch\<close> of lines 226-233 answers 500.
\<close>

definition deleteCategory :: "runtime \<Rightarrow> state \<Rightarrow> string \<Rightarrow> state \<times> response" where
  "deleteCategory rt st id_text =
     (case cast_ObjectId rt id_text of
        None \<Rightarrow> (st, server_error)
      | Some i \<Rightarrow>
          (case Category_findById st i of
             None \<Rightarrow> (st, Response 404 (Fail ''Category not found'' ''NOT_FOUND''))
           | Some cat \<Rightarrow>
               (case Product_findOne_category st (cat_name cat) of
                  Some _ \<Rightarrow>
                    (st, Response 400
                       (Fail ''Cannot delete category. Products are associated with this category''
                          ''CATEGORY_IN_USE''))
                | None \<Rightarrow>
                    (Category_findByIdAndDelete st i,
                     Response 200 (Done ''Category deleted successfully'')))))"

section \<open>Product requests\<close>

text \<open>
  A file of the multipart form, and the \<open>images\<close> entry of the parsed \<open>files\<close>: missing,
  one file, or an array of files.
\<close>

record form_file =
  mimetype :: "string option"
  filepath :: string

datatype files_field = No_files | One_file form_file | Many_files "form_file list"

record form =
  form_fields :: obj
  form_files :: files_field

text \<open>
  A request to create or update a product: whether its content type includes
  \<open>multipart/form-data\<close>, \<open>req.body\<close> (\<open>None\<close> when no body parser has set it), and what
  \<open>parseFormData\<close> yields when it is called (\<open>None\<close> when it rejects).
\<close>

record request =
  multipart :: bool
  body :: "obj option"
  parsed :: "form option"

text \<open>
  Lines 170-178 and 297-305: the fields and the files the controller works with. Without
  a body the first property read of \<open>fields\<close> throws.
\<close>

definition request_form :: "request \<Rightarrow> (obj \<times> files_field) option" where
  "request_form req =
     (if multipart req
      then map_option (\<lambda>f. (form_fields f, form_files f)) (parsed req)
      else map_option (\<lambda>b. (b, No_files)) (body req))"

text \<open>\<open>Array.isArray(v) ? v[0] : v\<close>.\<close>

fun first_or_self :: "jsval \<Rightarrow> jsval" where
  "first_or_self (JArr []) = JUndefined"
| "first_or_self (JArr (x # _)) = x"
| "first_or_self v = v"

text \<open>\<open>v ? (Array.isArray(v) ? v[0] : v) : undefined\<close>, as \<open>updateProduct\<close> reads a field.\<close>

definition supplied :: "jsval \<Rightarrow> jsval" where
  "supplied v = (if truthy v then first_or_self v else JUndefined)"

section \<open>Validation\<close>

text \<open>
  Lines 185-198. The checks run in the order name, price, category, stock, and each
  failing one adds its entry to \<open>errors\<close>. \<open>None\<close>: a \<open>trim\<close> call threw.
\<close>

definition validate_create ::
  "runtime \<Rightarrow> jsval \<Rightarrow> jsval \<Rightarrow> jsval \<Rightarrow> jsval \<Rightarrow> (string \<times> string) list option" where
  "validate_create rt nm pr cat stk =
     (case (if \<not> truthy nm then Some True else map_option (\<lambda>s. length s < 2) (js_trim nm)) of
        None \<Rightarrow> None
      | Some bad_name \<Rightarrow>
          (case (if \<not> truthy cat then Some True
                 else map_option (\<lambda>s. length s = 0) (js_trim cat)) of
             None \<Rightarrow> None
           | Some bad_category \<Rightarrow>
               Some
                ((if bad_name
                  then [(''name'', ''Product name is required and must be at least 2 characters'')]
                  else []) @
                 (if \<not> truthy pr \<or> num_le0 (ToNumber rt pr)
                  then [(''price'', ''Price must be greater than 0'')] else []) @
                 (if bad_category then [(''category'', ''Category is required'')] else []) @
                 (if stk = JUndefined \<or> num_lt0 (ToNumber rt stk)
                  then [(''stock'', ''Stock must be 0 or greater'')] else []))))"

text \<open>Lines 312-325: the same checks, each only for a field that is not \<open>undefined\<close>.\<close>

definition validate_update ::
  "runtime \<Rightarrow> jsval \<Rightarrow> jsval \<Rightarrow> jsval \<Rightarrow> jsval \<Rightarrow> (string \<times> string) list option" where
  "validate_update rt nm pr cat stk =
     (case (if nm = JUndefined then Some False else map_option (\<lambda>s. length s < 2) (js_trim nm)) of
        None \<Rightarrow> None
      | Some bad_name \<Rightarrow>
          (case (if cat = JUndefined then Some False
                 else map_option (\<lambda>s. length s = 0) (js_trim cat)) of
             None \<Rightarrow> None
           | Some bad_category \<Rightarrow>
               Some
                ((if bad_name
                  then [(''name'', ''Product name must be at least 2 characters'')] else []) @
                 (if pr \<noteq> JUndefined \<and> num_le0 (ToNumber rt pr)
                  then [(''price'', ''Price must be greater than 0'')] else []) @
                 (if bad_category then [(''category'', ''Category is required'')] else []) @
                 (if stk \<noteq> JUndefined \<and> num_lt0 (ToNumber rt stk)
                  then [(''stock'', ''Stock must be 0 or greater'')] else []))))"

definition invalid_category :: response where
  "invalid_category =
     Response 400 (Invalid ''Category does not exist'' [(''category'', ''Invalid category'')])"

section \<open>Image lists\<close>

text \<open>\<open>Array.isArray(files.images) ? files.images : [files.images]\<close>, under \<open>if (files.images)\<close>.\<close>

fun fileArray :: "files_field \<Rightarrow> form_file list" where
  "fileArray No_files = []"
| "fileArray (One_file f) = [f]"
| "fileArray (Many_files fs) = fs"

text \<open>\<open>file.mimetype && file.mimetype.startsWith('image/')\<close>.\<close>

definition is_image :: "form_file \<Rightarrow> bool" where
  "is_image f = (case mimetype f of None \<Rightarrow> False | Some m \<Rightarrow> m \<noteq> [] \<and> startsWith m ''image/'')"

text \<open>
  Lines 224-239 and 353-371: every image file is sent to the media host, in order; a
  call that throws is logged and skipped. The result is the log of calls and the URLs
  pushed.
\<close>

fun upload_files :: "runtime \<Rightarrow> string list \<Rightarrow> form_file list \<Rightarrow> string list \<times> jsval list" where
  "upload_files rt calls [] = (calls, [])"
| "upload_files rt calls (f # fs) =
     (if is_image f
      then (case cloudinary_upload rt calls (filepath f) of
              Some url \<Rightarrow>
                (case upload_files rt (calls @ [filepath f]) fs of
                   (calls', urls) \<Rightarrow> (calls', JStr url # urls))
            | None \<Rightarrow> upload_files rt (calls @ [filepath f]) fs)
      else upload_files rt calls fs)"

text \<open>
  Lines 247-251 and 380-384: the \<open>forEach\<close> over the parsed URLs. An entry is pushed when
  \<open>url && url.includes('cloudinary.com')\<close>; on an array \<open>includes\<close> is membership. A truthy
  entry without the method throws, which ends the loop (the enclosing \<open>catch\<close> logs it)
  and leaves what was pushed before.
\<close>

fun keep_urls :: "jsval list \<Rightarrow> jsval list" where
  "keep_urls [] = []"
| "keep_urls (u # us) =
     (if \<not> truthy u then keep_urls us
      else (case u of
              JStr s \<Rightarrow> (if str_includes s ''cloudinary.com'' then u # keep_urls us else keep_urls us)
            | JArr xs \<Rightarrow> (if JStr ''cloudinary.com'' \<in> set xs then u # keep_urls us else keep_urls us)
            | _ \<Rightarrow> []))"

text \<open>
  Lines 243-256 and 375-390: a truthy \<open>existingImages\<close> is parsed as JSON; only an array
  contributes, and a parse error is logged and contributes nothing.
\<close>

definition existing_images :: "runtime \<Rightarrow> jsval \<Rightarrow> jsval list" where
  "existing_images rt existingImages =
     (if truthy existingImages
      then (case JSON_parse rt existingImages of Some (JArr urls) \<Rightarrow> keep_urls urls | _ \<Rightarrow> [])
      else [])"

text \<open>
  Lines 406-422: the flat URL list of a JSON body. A non-blank string that includes
  \<open>cloudinary.com\<close> is pushed as it is; one that includes \<open>http\<close> is uploaded and the
  returned URL pushed (a failing upload is skipped); anything else is dropped.
\<close>

fun legacy_images :: "runtime \<Rightarrow> string list \<Rightarrow> jsval list \<Rightarrow> string list \<times> jsval list" where
  "legacy_images rt calls [] = (calls, [])"
| "legacy_images rt calls (JStr s # vs) =
     (if trim s = [] then legacy_images rt calls vs
      else if str_includes s ''cloudinary.com''
      then (case legacy_images rt calls vs of (calls', urls) \<Rightarrow> (calls', JStr s # urls))
      else if str_includes s ''http''
      then (case cloudinary_upload rt calls s of
              Some url \<Rightarrow>
                (case legacy_images rt (calls @ [s]) vs of (calls', urls) \<Rightarrow> (calls', JStr url # urls))
            | None \<Rightarrow> legacy_images rt (calls @ [s]) vs)
      else legacy_images rt calls vs)"
| "legacy_images rt calls (_ # vs) = legacy_images rt calls vs"

section \<open>The product schema\<close>

text \<open>
  The validators of the Product model, which \<open>Product.create\<close> and \<open>product.save\<close> run
  before they write: a name of 2 to 200 characters, a price of at least 0.01, a category,
  a stock of at least 0 and at most 10 images. NaN is not a number the schema accepts.
  The schema's \<open>trim\<close> setters act on strings the controller has already trimmed.
\<close>

fun num_ge :: "jsnum \<Rightarrow> rat \<Rightarrow> bool" where
  "num_ge NaN r = False"
| "num_ge NegInf r = False"
| "num_ge (Fin x) r = (r \<le> x)"
| "num_ge PosInf r = True"

definition schema_valid :: "product \<Rightarrow> bool" where
  "schema_valid p \<longleftrightarrow>
     2 \<le> length (name p) \<and> length (name p) \<le> 200 \<and>
     num_ge (price p) (1 / 100) \<and>
     category p \<noteq> [] \<and>
     num_ge (stock p) 0 \<and>
     length (images p) \<le> 10"

text \<open>The \<open>images\<close> path holds strings; a candidate list with another value is rejected.\<close>

fun cast_images :: "jsval list \<Rightarrow> string list option" where
  "cast_images [] = Some []"
| "cast_images (JStr s # vs) = map_option ((#) s) (cast_images vs)"
| "cast_images (_ # vs) = None"

text \<open>\<open>Product.create\<close>: a valid document gets a fresh identifier and is appended.\<close>

definition Product_create :: "state \<Rightarrow> product \<Rightarrow> (state \<times> product) option" where
  "Product_create st p =
     (if schema_valid p
      then (let doc = p\<lparr>ident := next_id st\<rparr>
            in Some (st\<lparr>products := products st @ [doc], next_id := Suc (next_id st)\<rparr>, doc))
      else None)"

text \<open>\<open>product.save()\<close>: a valid document replaces the stored one with its identifier.\<close>

fun replace_first :: "nat \<Rightarrow> product \<Rightarrow> product list \<Rightarrow> product list" where
  "replace_first i p [] = []"
| "replace_first i p (q # qs) = (if ident q = i then p # qs else q # replace_first i p qs)"

definition Product_save :: "state \<Rightarrow> product \<Rightarrow> state option" where
  "Product_save st p =
     (if schema_valid p
      then Some (st\<lparr>products := replace_first (ident p) p (products st)\<rparr>)
      else None)"

section \<open>Creating and updating a product\<close>

text \<open>
  \<open>Category.findOne({ name: category.trim() })\<close>: whether a category has exactly the
  trimmed name. \<open>None\<close>: the \<open>trim\<close> call threw.
\<close>

definition category_exists :: "state \<Rightarrow> jsval \<Rightarrow> bool option" where
  "category_exists st cat =
     map_option (\<lambda>c. Category_findOne_name st c \<noteq> None) (js_trim cat)"

text \<open>
  \<open>createProduct\<close>, lines 167-280. Whatever throws inside is caught at the end and
  answered with 500; the calls made to the media host before that stay made.
\<close>

definition createProduct :: "runtime \<Rightarrow> state \<Rightarrow> request \<Rightarrow> state \<times> response" where
  "createProduct rt st req =
     (case request_form req of
        None \<Rightarrow> (st, server_error)
      | Some (flds, files) \<Rightarrow>
          (let nm = first_or_self (flds ''name'');
               pr = first_or_self (flds ''price'');
               cat = first_or_self (flds ''category'');
               stk = first_or_self (flds ''stock'')
           in case validate_create rt nm pr cat stk of
                None \<Rightarrow> (st, server_error)
              | Some errors \<Rightarrow>
                  if errors \<noteq> [] then (st, Response 400 (Invalid ''Validation error'' errors))
                  else
                    (case category_exists st cat of
                       None \<Rightarrow> (st, server_error)
                     | Some False \<Rightarrow> (st, invalid_category)
                     | Some True \<Rightarrow>
                         (case upload_files rt (uploads st) (fileArray files) of
                            (calls, uploaded) \<Rightarrow>
                              (let existingImages = first_or_self (flds ''existingImages'');
                                   processedImages = uploaded @ existing_images rt existingImages;
                                   st1 = st\<lparr>uploads := calls\<rparr>
                               in case (js_trim nm, js_trim cat, cast_images processedImages) of
                                    (Some n, Some c, Some imgs) \<Rightarrow>
                                      (case Product_create st1
                                              \<lparr>ident = 0, name = n, price = parseFloat rt pr,
                                               category = c, stock = parseInt rt stk,
                                               images = imgs\<rparr> of
                                         None \<Rightarrow> (st1, server_error)
                                       | Some (st2, doc) \<Rightarrow>
                                           (st2, Response 201
                                              (Done_product ''Product created successfully'' doc)))
                                  | _ \<Rightarrow> (st1, server_error))))))"

text \<open>
  Lines 350-424 of \<open>updateProduct\<close>: the candidate list. It starts from the uploaded files
  and the kept URLs; when both give nothing and neither files nor \<open>existingImages\<close> were
  sent, it is the stored list. A request that is not multipart (its \<open>req.body\<close> is the
  \<open>fields\<close> read here) and carries a non-empty \<open>images\<close> array then replaces the candidates
  by what that array gives.
\<close>

definition reconcile_images ::
  "runtime \<Rightarrow> string list \<Rightarrow> product \<Rightarrow> bool \<Rightarrow> obj \<Rightarrow> files_field \<Rightarrow> string list \<times> jsval list" where
  "reconcile_images rt calls product is_multipart flds files =
     (case upload_files rt calls (fileArray files) of
        (calls1, uploaded) \<Rightarrow>
          (let existingImages = supplied (flds ''existingImages'');
               processedImages = uploaded @ existing_images rt existingImages;
               processedImages1 =
                 (if processedImages = [] \<and> files = No_files \<and> \<not> truthy existingImages
                  then map JStr (images product) else processedImages)
           in if \<not> is_multipart
              then (case flds ''images'' of
                      JArr (v # vs) \<Rightarrow> legacy_images rt calls1 (v # vs)
                    | _ \<Rightarrow> (calls1, processedImages1))
              else (calls1, processedImages1)))"

text \<open>
  Line 437: whether the candidate list is assigned to \<open>product.images\<close>. The third
  disjunct reads \<open>req.body.images\<close>, which throws (\<open>None\<close>) when there is no \<open>req.body\<close>.
\<close>

definition images_assigned :: "request \<Rightarrow> files_field \<Rightarrow> jsval \<Rightarrow> jsval list \<Rightarrow> bool option" where
  "images_assigned req files existingImages processedImages =
     (if files \<noteq> No_files \<or> truthy existingImages then Some True
      else (case body req of
              None \<Rightarrow> None
            | Some b \<Rightarrow>
                Some ((case b ''images'' of JArr _ \<Rightarrow> True | _ \<Rightarrow> False) \<or> processedImages \<noteq> [])))"

text \<open>Lines 427-430: the scalar fields that are not \<open>undefined\<close> are assigned.\<close>

definition assign_scalars ::
  "runtime \<Rightarrow> product \<Rightarrow> jsval \<Rightarrow> jsval \<Rightarrow> jsval \<Rightarrow> jsval \<Rightarrow> product option" where
  "assign_scalars rt product nm pr cat stk =
     (case (if nm = JUndefined then Some (name product) else js_trim nm) of
        None \<Rightarrow> None
      | Some n \<Rightarrow>
          (case (if cat = JUndefined then Some (category product) else js_trim cat) of
             None \<Rightarrow> None
           | Some c \<Rightarrow>
               Some (product
                 \<lparr>name := n,
                  price := (if pr = JUndefined then price product else parseFloat rt pr),
                  category := c,
                  stock := (if stk = JUndefined then stock product else parseInt rt stk)\<rparr>)))"

text \<open>\<open>updateProduct\<close>, lines 284-456.\<close>

definition updateProduct :: "runtime \<Rightarrow> state \<Rightarrow> nat \<Rightarrow> request \<Rightarrow> state \<times> response" where
  "updateProduct rt st i req =
     (case Product_findById st i of
        None \<Rightarrow> (st, Response 404 (Fail ''Product not found'' ''NOT_FOUND''))
      | Some product \<Rightarrow>
          (case request_form req of
             None \<Rightarrow> (st, server_error)
           | Some (flds, files) \<Rightarrow>
               (let nm = supplied (flds ''name'');
                    pr = supplied (flds ''price'');
                    cat = supplied (flds ''category'');
                    stk = supplied (flds ''stock'')
                in case validate_update rt nm pr cat stk of
                     None \<Rightarrow> (st, server_error)
                   | Some errors \<Rightarrow>
                       if errors \<noteq> [] then (st, Response 400 (Invalid ''Validation error'' errors))
                       else
                         (case (if truthy cat then category_exists st cat else Some True) of
                            None \<Rightarrow> (st, server_error)
                          | Some False \<Rightarrow> (st, invalid_category)
                          | Some True \<Rightarrow>
                              (case reconcile_images rt (uploads st) product (multipart req) flds files of
                                 (calls, processedImages) \<Rightarrow>
                                   (let st1 = st\<lparr>uploads := calls\<rparr>;
                                        existingImages = supplied (flds ''existingImages'')
                                    in case (assign_scalars rt product nm pr cat stk,
                                             images_assigned req files existingImages processedImages) of
                                         (Some product1, Some assign) \<Rightarrow>
                                           (case (if assign
                                                  then map_option (\<lambda>imgs. product1\<lparr>images := imgs\<rparr>)
                                                         (cast_images processedImages)
                                                  else Some product1) of
                                              None \<Rightarrow> (st1, server_error)
                                            | Some product2 \<Rightarrow>
                                                (case Product_save st1 product2 of
                                                   None \<Rightarrow> (st1, server_error)
                                                 | Some st2 \<Rightarrow>
                                                     (st2, Response 200
                                                        (Done_product ''Product updated successfully''
                                                           product2))))
                                       | _ \<Rightarrow> (st1, server_error)))))))"

section \<open>Listing products\<close>

text \<open>
  The query string of \<open>GET /api/products\<close>; a parameter is a string or missing.
\<close>

record query =
  q_search :: "string option"
  q_category :: "string option"
  q_sortBy :: "string option"
  q_sortOrder :: "string option"
  q_page :: "string option"
  q_limit :: "string option"

text \<open>
  Lines 86-94: the filter. A non-empty \<open>search\<close> is a case-insensitive \<open>$regex\<close> on the
  name; a non-empty \<open>category\<close> other than \<open>all\<close> must equal the product's category.
\<close>

definition name_filter :: "runtime \<Rightarrow> string option \<Rightarrow> (string \<Rightarrow> bool) option" where
  "name_filter rt search =
     (case search of
        None \<Rightarrow> Some (\<lambda>_. True)
      | Some s \<Rightarrow> if s = [] then Some (\<lambda>_. True) else regex_query rt s)"

definition category_filter :: "string option \<Rightarrow> string \<Rightarrow> bool" where
  "category_filter cat c =
     (case cat of
        None \<Rightarrow> True
      | Some k \<Rightarrow> if k \<noteq> [] \<and> k \<noteq> ''all'' then c = k else True)"

definition Product_find :: "runtime \<Rightarrow> state \<Rightarrow> query \<Rightarrow> product list option" where
  "Product_find rt st q =
     map_option
       (\<lambda>m. filter (\<lambda>p. m (name p) \<and> category_filter (q_category q) (category p)) (products st))
       (name_filter rt (q_search q))"

text \<open>
  The store's order on the values of a field: numbers before strings, NaN below every
  number, strings by their characters.
\<close>

fun num_key :: "jsnum \<Rightarrow> nat \<times> rat" where
  "num_key NaN = (0, 0)"
| "num_key NegInf = (1, 0)"
| "num_key (Fin r) = (2, r)"
| "num_key PosInf = (3, 0)"

type_synonym sort_key = "nat \<times> (nat \<times> rat) \<times> string"

definition field_key :: "string \<Rightarrow> product \<Rightarrow> sort_key" where
  "field_key f p =
     (if f = ''name'' then (1, (0, 0), name p)
      else if f = ''price'' then (0, num_key (price p), [])
      else if f = ''stock'' then (0, num_key (stock p), [])
      else (1, (0, 0), category p))"

text \<open>
  Lines 97-98 and \<open>.sort(sort)\<close>: the only key of \<open>sort\<close> is \<open>sortBy\<close>, with \<open>-1\<close> when
  \<open>sortOrder\<close> is \<open>desc\<close> and \<open>1\<close> otherwise. Documents with equal keys come in the
  store's order when ascending and in its reverse when descending; the store promises no
  order among them.
\<close>

definition Product_sort ::
  "runtime \<Rightarrow> string \<Rightarrow> bool \<Rightarrow> product list \<Rightarrow> product list option" where
  "Product_sort rt sortBy descending docs =
     (if sortBy \<in> set [''name'', ''price'', ''stock'', ''category'']
      then Some (if descending then rev (sort_key (field_key sortBy) docs)
                 else sort_key (field_key sortBy) docs)
      else sort_other rt sortBy descending docs)"

text \<open>The number a positive integer denotes.\<close>

fun pos_int :: "jsnum \<Rightarrow> nat option" where
  "pos_int (Fin r) = (if 0 < r \<and> of_int \<lfloor>r\<rfloor> = r then Some (nat \<lfloor>r\<rfloor>) else None)"
| "pos_int _ = None"

text \<open>
  Line 83 and lines 98-102: the defaults apply to a missing parameter only; the direction
  is descending exactly when \<open>sortOrder\<close> is \<open>desc\<close>; page and limit go through
  \<open>parseInt\<close>.
\<close>

definition sort_field :: "query \<Rightarrow> string" where
  "sort_field q = (case q_sortBy q of None \<Rightarrow> ''name'' | Some s \<Rightarrow> s)"

definition descending :: "query \<Rightarrow> bool" where
  "descending q = ((case q_sortOrder q of None \<Rightarrow> ''asc'' | Some s \<Rightarrow> s) = ''desc'')"

definition pageNum :: "runtime \<Rightarrow> query \<Rightarrow> jsnum" where
  "pageNum rt q = parseInt rt (case q_page q of None \<Rightarrow> JNum (Fin 1) | Some s \<Rightarrow> JStr s)"

definition limitNum :: "runtime \<Rightarrow> query \<Rightarrow> jsnum" where
  "limitNum rt q = parseInt rt (case q_limit q of None \<Rightarrow> JNum (Fin 5) | Some s \<Rightarrow> JStr s)"

text \<open>\<open>getProducts\<close>, lines 81-135.\<close>

definition getProducts :: "runtime \<Rightarrow> state \<Rightarrow> query \<Rightarrow> response" where
  "getProducts rt st q =
     (case Product_find rt st q of
        None \<Rightarrow> server_error
      | Some found \<Rightarrow>
          (case Product_sort rt (sort_field q) (descending q) found of
             None \<Rightarrow> server_error
           | Some sorted_docs \<Rightarrow>
               (case (pos_int (pageNum rt q), pos_int (limitNum rt q)) of
                  (Some p, Some l) \<Rightarrow>
                    Response 200
                      (Listing (take l (drop ((p - 1) * l) sorted_docs))
                         \<lparr>currentPage = p,
                          totalPages = nat \<lceil>(of_nat (length found) :: rat) / of_nat l\<rceil>,
                          totalItems = length found,
                          itemsPerPage = l\<rparr>)
                | _ \<Rightarrow> window_other rt (pageNum rt q) (limitNum rt q) sorted_docs)))"

section \<open>The authentication gate\<close>

text \<open>\<open>String.prototype.split\<close> on a one-character separator.\<close>

fun split_on :: "char \<Rightarrow> string \<Rightarrow> string list" where
  "split_on c [] = [[]]"
| "split_on c (x # xs) =
     (if x = c then [] # split_on c xs
      else (case split_on c xs of [] \<Rightarrow> [[x]] | w # ws \<Rightarrow> (x # w) # ws))"

text \<open>Lines 27-32 of \<open>protect\<close>: the token, \<open>None\<close> for \<open>undefined\<close>.\<close>

definition bearer_token :: "string option \<Rightarrow> string option" where
  "bearer_token authorization =
     (case authorization of
        None \<Rightarrow> None
      | Some a \<Rightarrow>
          if a \<noteq> [] \<and> startsWith a ''Bearer''
          then (case split_on CHR '' '' a of _ # t # _ \<Rightarrow> Some t | _ \<Rightarrow> None)
          else None)"

definition User_findById :: "state \<Rightarrow> nat \<Rightarrow> user option" where
  "User_findById st i = find (\<lambda>u. user_id u = i) (users st)"

definition unauthorized :: "string \<Rightarrow> response" where
  "unauthorized message = Response 401 (Fail message ''UNAUTHORIZED'')"

text \<open>
  \<open>protect\<close>, lines 25-66: the response it sends, or the user it hands to \<open>next()\<close>.
\<close>

definition protect :: "runtime \<Rightarrow> state \<Rightarrow> string option \<Rightarrow> response + user" where
  "protect rt st authorization =
     (case bearer_token authorization of
        None \<Rightarrow> Inl (unauthorized ''Not authorized, no token provided'')
      | Some token \<Rightarrow>
          if token = [] then Inl (unauthorized ''Not authorized, no token provided'')
          else (case jwt_verify rt token of
                  None \<Rightarrow> Inl (unauthorized ''Invalid or expired token'')
                | Some decoded_id \<Rightarrow>
                    (case User_findById st decoded_id of
                       None \<Rightarrow> Inl (unauthorized ''User not found'')
                     | Some u \<Rightarrow> Inr u)))"

text \<open>
  A protected route (\<open>router.use(protect)\<close>, \<open>router.get('/me', protect, getMe)\<close>): the
  handler runs only when \<open>protect\<close> calls \<open>next()\<close>.
\<close>

definition protected ::
  "runtime \<Rightarrow> string option \<Rightarrow> (user \<Rightarrow> state \<Rightarrow> state \<times> response) \<Rightarrow> state \<Rightarrow> state \<times> response" where
  "protected rt authorization handler st =
     (case protect rt st authorization of
        Inl resp \<Rightarrow> (st, resp)
      | Inr u \<Rightarrow> handler u st)"

section \<open>Sample data\<close>

text \<open>
  A small store for the examples: one product with three images, two categories, one of
  them in use, and one user.
\<close>

definition demo_store :: state where
  "demo_store =
     \<lparr>products =
        [\<lparr>ident = 10, name = ''Atlas'', price = Fin 20, category = ''Books'', stock = Fin 5,
          images =
            [''https://res.cloudinary.com/demo/a1.png'', ''https://res.cloudinary.com/demo/a2.png'',
             ''https://res.cloudinary.com/demo/a3.png'']\<rparr>],
      categories = [\<lparr>cat_id = 1, cat_name = ''Books''\<rparr>, \<lparr>cat_id = 2, cat_name = ''Toys''\<rparr>],
      users =
        [\<lparr>user_id = 1, username = ''admin'', full_name = ''Admin'', email = ''admin@example.com''\<rparr>],
      uploads = [],
      next_id = 11\<rparr>"

text \<open>
  A runtime for the examples. It agrees with JavaScript on the inputs the examples use:
  numbers, decimal integer numerals, search patterns of letters, and JSON arrays of plain
  strings as \<open>JSON.stringify\<close> writes them; what it returns elsewhere plays no part. Its media host
  accepts every upload, its token verifier knows two tokens, for the users 1 and 9, and
  its store reads an identifier from a text of 24 hexadecimal digits and from no other.
\<close>

definition digit_of :: "char \<Rightarrow> nat option" where
  "digit_of c =
     map_of [(CHR ''0'', 0), (CHR ''1'', 1), (CHR ''2'', 2), (CHR ''3'', 3), (CHR ''4'', 4),
             (CHR ''5'', 5), (CHR ''6'', 6), (CHR ''7'', 7), (CHR ''8'', 8), (CHR ''9'', 9)] c"

fun digits_value :: "nat \<Rightarrow> string \<Rightarrow> nat option" where
  "digits_value n [] = Some n"
| "digits_value n (c # cs) =
     (case digit_of c of None \<Rightarrow> None | Some d \<Rightarrow> digits_value (10 * n + d) cs)"

fun decimal :: "string \<Rightarrow> jsnum" where
  "decimal [] = NaN"
| "decimal (c # cs) =
     (if c = CHR ''-''
      then (case cs of
              [] \<Rightarrow> NaN
            | _ \<Rightarrow> (case digits_value 0 cs of None \<Rightarrow> NaN | Some n \<Rightarrow> Fin (- of_nat n)))
      else (case digits_value 0 (c # cs) of None \<Rightarrow> NaN | Some n \<Rightarrow> Fin (of_nat n)))"

definition hex_digit_of :: "char \<Rightarrow> nat option" where
  "hex_digit_of c =
     map_of [(CHR ''0'', 0), (CHR ''1'', 1), (CHR ''2'', 2), (CHR ''3'', 3), (CHR ''4'', 4),
             (CHR ''5'', 5), (CHR ''6'', 6), (CHR ''7'', 7), (CHR ''8'', 8), (CHR ''9'', 9),
             (CHR ''a'', 10), (CHR ''b'', 11), (CHR ''c'', 12), (CHR ''d'', 13), (CHR ''e'', 14),
             (CHR ''f'', 15), (CHR ''A'', 10), (CHR ''B'', 11), (CHR ''C'', 12), (CHR ''D'', 13),
             (CHR ''E'', 14), (CHR ''F'', 15)] c"

fun hex_value :: "nat \<Rightarrow> string \<Rightarrow> nat option" where
  "hex_value n [] = Some n"
| "hex_value n (c # cs) =
     (case hex_digit_of c of None \<Rightarrow> None | Some d \<Rightarrow> hex_value (16 * n + d) cs)"

datatype scan_state = Start | Opened | In_string | After_string | After_comma | Closed

fun string_array :: "scan_state \<Rightarrow> string \<Rightarrow> string list \<Rightarrow> string \<Rightarrow> string list option" where
  "string_array s cur acc [] = (if s = Closed then Some (rev acc) else None)"
| "string_array s cur acc (c # cs) =
     (case s of
        Start \<Rightarrow> if c = CHR ''['' then string_array Opened [] acc cs else None
      | Opened \<Rightarrow>
          if c = CHR '']'' then string_array Closed [] acc cs
          else if c = CHR 0x22 then string_array In_string [] acc cs else None
      | In_string \<Rightarrow>
          if c = CHR 0x22 then string_array After_string [] (rev cur # acc) cs
          else if c = CHR 0x5C then None
          else string_array In_string (c # cur) acc cs
      | After_string \<Rightarrow>
          if c = CHR '']'' then string_array Closed [] acc cs
          else if c = CHR '','' then string_array After_comma [] acc cs else None
      | After_comma \<Rightarrow> if c = CHR 0x22 then string_array In_string [] acc cs else None
      | Closed \<Rightarrow> None)"

definition to_lower :: "char \<Rightarrow> char" where
  "to_lower c =
     (case map_of (zip ''ABCDEFGHIJKLMNOPQRSTUVWXYZ'' ''abcdefghijklmnopqrstuvwxyz'') c of
        None \<Rightarrow> c
      | Some l \<Rightarrow> l)"

definition sample_runtime :: runtime where
  "sample_runtime =
     \<lparr>ToNumber_other = (\<lambda>v. case v of JStr s \<Rightarrow> decimal s | _ \<Rightarrow> NaN),
      parseFloat = (\<lambda>v. case v of JNum n \<Rightarrow> n | JStr s \<Rightarrow> decimal s | _ \<Rightarrow> NaN),
      parseInt =
        (\<lambda>v. case v of
                JNum (Fin r) \<Rightarrow> Fin (of_int (if 0 \<le> r then \<lfloor>r\<rfloor> else \<lceil>r\<rceil>))
              | JStr s \<Rightarrow> decimal s
              | _ \<Rightarrow> NaN),
      JSON_parse =
        (\<lambda>v. case v of
                JStr s \<Rightarrow> map_option (\<lambda>urls. JArr (map JStr urls)) (string_array Start [] [] s)
              | _ \<Rightarrow> None),
      cloudinary_upload =
        (\<lambda>calls src. Some (''https://res.cloudinary.com/demo/image/upload/'' @ src)),
      jwt_verify =
        (\<lambda>t. if t = ''token-of-1'' then Some 1 else if t = ''token-of-9'' then Some 9 else None),
      regex_query = (\<lambda>pat. Some (\<lambda>s. str_includes (map to_lower s) (map to_lower pat))),
      sort_other = (\<lambda>f d docs. Some docs),
      window_other = (\<lambda>p l docs. server_error),
      cast_ObjectId = (\<lambda>s. if length s = 24 then hex_value 0 s else None)\<rparr>"

text \<open>\<open>JSON.stringify\<close> of an array of plain strings, as the frontend sends its keep list.\<close>

fun join_quoted :: "string list \<Rightarrow> string" where
  "join_quoted [] = []"
| "join_quoted [u] = CHR 0x22 # u @ [CHR 0x22]"
| "join_quoted (u # v # us) = CHR 0x22 # u @ [CHR 0x22] @ '','' @ join_quoted (v # us)"

definition stringify :: "string list \<Rightarrow> string" where
  "stringify urls = ''['' @ join_quoted urls @ '']''"

text \<open>A handler that would change the store: it removes the category 2.\<close>

definition drop_toys :: "user \<Rightarrow> state \<Rightarrow> state \<times> response" where
  "drop_toys u st =
     (Category_findByIdAndDelete st 2, Response 200 (Done ''Category deleted successfully''))"

text \<open>
  Requests for the examples: a JSON request with the given body, and a multipart request
  with the given fields and files (its \<open>req.body\<close> is the empty object).
\<close>

definition json_request :: "obj \<Rightarrow> request" where
  "json_request b = \<lparr>multipart = False, body = Some b, parsed = None\<rparr>"

definition form_request :: "obj \<Rightarrow> files_field \<Rightarrow> request" where
  "form_request flds files =
     \<lparr>multipart = True, body = Some no_fields,
      parsed = Some \<lparr>form_fields = flds, form_files = files\<rparr>\<rparr>"

definition atlas :: product where
  "atlas =
     \<lparr>ident = 10, name = ''Atlas'', price = Fin 20, category = ''Books'', stock = Fin 5,
      images =
        [''https://res.cloudinary.com/demo/a1.png'', ''https://res.cloudinary.com/demo/a2.png'',
         ''https://res.cloudinary.com/demo/a3.png'']\<rparr>"

text \<open>The stored images of the product with an identifier.\<close>

definition stored_images :: "state \<Rightarrow> nat \<Rightarrow> string list option" where
  "stored_images st i = map_option images (Product_findById st i)"





section \<open>The validation rules of the specification\<close>

text \<open>
  The four rules as the specification words them, read on the value a request carries for
  a field: the name, trimmed, has at least 2 characters; the price is greater than 0;
  the category, trimmed, is not empty; the stock is present and at least 0.
\<close>

fun num_gt0 :: "jsnum \<Rightarrow> bool" where
  "num_gt0 NaN = False"
| "num_gt0 NegInf = False"
| "num_gt0 (Fin r) = (0 < r)"
| "num_gt0 PosInf = True"

definition rule_name :: "jsval \<Rightarrow> bool" where
  "rule_name v = (case v of JStr s \<Rightarrow> 2 \<le> length (trim s) | _ \<Rightarrow> False)"

definition rule_price :: "runtime \<Rightarrow> jsval \<Rightarrow> bool" where
  "rule_price rt v = num_gt0 (ToNumber rt v)"

definition rule_category :: "jsval \<Rightarrow> bool" where
  "rule_category v = (case v of JStr s \<Rightarrow> trim s \<noteq> [] | _ \<Rightarrow> False)"

definition rule_stock :: "runtime \<Rightarrow> jsval \<Rightarrow> bool" where
  "rule_stock rt v = (v \<noteq> JUndefined \<and> num_ge (ToNumber rt v) 0)"

definition failing_fields :: "runtime \<Rightarrow> jsval \<Rightarrow> jsval \<Rightarrow> jsval \<Rightarrow> jsval \<Rightarrow> string list" where
  "failing_fields rt nm pr cat stk =
     (if rule_name nm then [] else [''name'']) @
     (if rule_price rt pr then [] else [''price'']) @
     (if rule_category cat then [] else [''category'']) @
     (if rule_stock rt stk then [] else [''stock''])"

text \<open>
  The values the rules are about: a text field holds a string when it holds anything, and
  a numeric field, when present, denotes a number.
\<close>

definition text_field :: "jsval \<Rightarrow> bool" where
  "text_field v = (case v of JStr s \<Rightarrow> True | _ \<Rightarrow> \<not> truthy v)"

definition numeric_field :: "runtime \<Rightarrow> jsval \<Rightarrow> bool" where
  "numeric_field rt v = (v = JUndefined \<or> ToNumber rt v \<noteq> NaN)"

text \<open>A multipart request that creates a product whose price is the text \<open>abc\<close>.\<close>

definition create_priced_abc :: request where
  "create_priced_abc =
     form_request
       (no_fields
          (''name'' := JArr [JStr ''Globe''], ''price'' := JArr [JStr ''abc''],
           ''category'' := JArr [JStr ''Books''], ''stock'' := JArr [JStr ''1'']))
       (Many_files [\<lparr>mimetype = Some ''image/png'', filepath = ''/tmp/u1''\<rparr>])"

text \<open>JSON requests that create a product \<open>Globe\<close>, with the given price, category and stock.\<close>

definition create_json :: "jsval \<Rightarrow> string \<Rightarrow> jsval \<Rightarrow> request" where
  "create_json pr cat stk =
     json_request
       (no_fields
          (''name'' := JStr ''Globe'', ''price'' := pr, ''category'' := JStr cat, ''stock'' := stk))"

text \<open>
  A catalogue of twelve products \<open>p01\<close> to \<open>p12\<close>, stored in no particular order, and a
  store with two products whose order by name and by price differ.
\<close>

definition item :: "nat \<Rightarrow> string \<Rightarrow> rat \<Rightarrow> product" where
  "item i n pr =
     \<lparr>ident = i, name = n, price = Fin pr, category = ''Books'', stock = Fin 1, images = []\<rparr>"


definition two_products :: state where
  "two_products =
     \<lparr>products = [item 1 ''Alpha'' 2, item 2 ''Beta'' 1],
      categories = [\<lparr>cat_id = 1, cat_name = ''Books''\<rparr>],
      users = [],
      uploads = [],
      next_id = 3\<rparr>"



definition no_query :: query where
  "no_query =
     \<lparr>q_search = None, q_category = None, q_sortBy = None, q_sortOrder = None,
      q_page = None, q_limit = None\<rparr>"

section \<open>The domain of the media host\<close>

text \<open>
  A reference that belongs to the domain of the media host, as the specification means
  it: an \<open>http\<close> or \<open>https\<close> URL whose host, written in lower case, is \<open>cloudinary.com\<close> or
  ends with \<open>.cloudinary.com\<close>. The host is what stands between the scheme and the first
  \<open>/\<close>, \<open>?\<close> or \<open>#\<close>, without user information and port.
\<close>

definition url_authority :: "string \<Rightarrow> string option" where
  "url_authority u =
     (if prefix ''https://'' u then Some (takeWhile (\<lambda>c. c \<notin> set ''/?#'') (drop 8 u))
      else if prefix ''http://'' u then Some (takeWhile (\<lambda>c. c \<notin> set ''/?#'') (drop 7 u))
      else None)"

definition url_host :: "string \<Rightarrow> string option" where
  "url_host u =
     map_option
       (\<lambda>a. takeWhile (\<lambda>c. c \<noteq> CHR '':'') (rev (takeWhile (\<lambda>c. c \<noteq> CHR ''@'') (rev a))))
       (url_authority u)"

definition media_host :: "string \<Rightarrow> bool" where
  "media_host h = (h = ''cloudinary.com'' \<or> suffix ''.cloudinary.com'' h)"

definition of_media_domain :: "string \<Rightarrow> bool" where
  "of_media_domain u = (case url_host u of None \<Rightarrow> False | Some h \<Rightarrow> media_host h)"

section \<open>Properties of the store operations\<close>

lemma find_None_iff_no_match: "find P xs = None \<longleftrightarrow> (\<forall>x \<in> set xs. \<not> P x)"
  by (induction xs) auto

lemma find_distinct_key:
  "distinct (map f xs) \<Longrightarrow> x \<in> set xs \<Longrightarrow> find (\<lambda>y. f y = f x) xs = Some x"
  by (induction xs) (auto simp: rev_image_eqI)

lemma delete_first_distinct_key:
  "distinct (map f xs) \<Longrightarrow> x \<in> set xs \<Longrightarrow>
     set (delete_first (\<lambda>y. f y = f x) xs) = set xs - {x}"
  by (induction xs) (auto simp: rev_image_eqI)

section \<open>Properties of category deletion\<close>

text \<open>
  C8. Deleting a category, in a store whose category identifiers are unique. When the
  text of the request is no identifier, the lookup throws and the answer is 500
  \<open>SERVER_ERROR\<close>, with the store unchanged. When it is the identifier of no category the
  answer is 404 \<open>NOT_FOUND\<close>; when the category exists and some product's \<open>category\<close> equals
  its name the answer is 400 \<open>CATEGORY_IN_USE\<close> and the store is unchanged, so the category is
  still there; otherwise the answer is the success and exactly that category is gone, the
  products being untouched.
\<close>

theorem deleteCategory_outcomes:
  assumes "distinct (map cat_id (categories st))"
  shows "(cast_ObjectId rt id_text = None \<longrightarrow>
            deleteCategory rt st id_text =
              (st, Response 500 (Fail ''Server error'' ''SERVER_ERROR''))) \<and>
         (\<forall>i. cast_ObjectId rt id_text = Some i \<longrightarrow>
            ((\<forall>c \<in> set (categories st). cat_id c \<noteq> i) \<longrightarrow>
               deleteCategory rt st id_text =
                 (st, Response 404 (Fail ''Category not found'' ''NOT_FOUND''))) \<and>
            (\<forall>c \<in> set (categories st). cat_id c = i \<longrightarrow>
               ((\<exists>p \<in> set (products st). category p = cat_name c) \<longrightarrow>
                  deleteCategory rt st id_text =
                    (st, Response 400
                       (Fail ''Cannot delete category. Products are associated with this category''
                          ''CATEGORY_IN_USE''))) \<and>
               ((\<forall>p \<in> set (products st). category p \<noteq> cat_name c) \<longrightarrow>
                  snd (deleteCategory rt st id_text) =
                    Response 200 (Done ''Category deleted successfully'') \<and>
                  set (categories (fst (deleteCategory rt st id_text))) = set (categories st) - {c} \<and>
                  products (fst (deleteCategory rt st id_text)) = products st)))"
proof (intro conjI impI allI ballI)
  assume "cast_ObjectId rt id_text = None"
  then show "deleteCategory rt st id_text =
      (st, Response 500 (Fail ''Server error'' ''SERVER_ERROR''))"
    by (simp add: deleteCategory_def server_error_def)
next
  fix i
  assume cast: "cast_ObjectId rt id_text = Some i"
    and "\<forall>c \<in> set (categories st). cat_id c \<noteq> i"
  then show "deleteCategory rt st id_text =
      (st, Response 404 (Fail ''Category not found'' ''NOT_FOUND''))"
    by (simp add: deleteCategory_def Category_findById_def find_None_iff_no_match[THEN iffD2])
next
  fix i c
  assume cast: "cast_ObjectId rt id_text = Some i"
    and c: "c \<in> set (categories st)" "cat_id c = i"
    and used: "\<exists>p \<in> set (products st). category p = cat_name c"
  have found: "Category_findById st i = Some c"
    using find_distinct_key[OF assms c(1)] c(2) by (simp add: Category_findById_def)
  have "Product_findOne_category st (cat_name c) \<noteq> None"
    using used by (simp add: Product_findOne_category_def find_None_iff_no_match)
  with found cast show "deleteCategory rt st id_text =
      (st, Response 400
         (Fail ''Cannot delete category. Products are associated with this category''
            ''CATEGORY_IN_USE''))"
    by (auto simp: deleteCategory_def)
next
  fix i c
  assume cast: "cast_ObjectId rt id_text = Some i"
    and c: "c \<in> set (categories st)" "cat_id c = i"
    and unused: "\<forall>p \<in> set (products st). category p \<noteq> cat_name c"
  have found: "Category_findById st i = Some c"
    using find_distinct_key[OF assms c(1)] c(2) by (simp add: Category_findById_def)
  have none: "Product_findOne_category st (cat_name c) = None"
    using unused by (simp add: Product_findOne_category_def find_None_iff_no_match)
  have after: "deleteCategory rt st id_text =
      (Category_findByIdAndDelete st i, Response 200 (Done ''Category deleted successfully''))"
    using found none cast by (simp add: deleteCategory_def)
  show "snd (deleteCategory rt st id_text) = Response 200 (Done ''Category deleted successfully'')"
    by (simp add: after)
  show "set (categories (fst (deleteCategory rt st id_text))) = set (categories st) - {c}"
    using delete_first_distinct_key[OF assms c(1)] c(2)
    by (simp add: after Category_findByIdAndDelete_def)
  show "products (fst (deleteCategory rt st id_text)) = products st"
    by (simp add: after Category_findByIdAndDelete_def)
qed

theorem deleteCategory_outcomes_witness:
  "distinct (map cat_id (categories demo_store)) \<and>
   deleteCategory sample_runtime demo_store ''not-an-id'' =
     (demo_store, Response 500 (Fail ''Server error'' ''SERVER_ERROR'')) \<and>
   deleteCategory sample_runtime demo_store ''000000000000000000000007'' =
     (demo_store, Response 404 (Fail ''Category not found'' ''NOT_FOUND'')) \<and>
   deleteCategory sample_runtime demo_store ''000000000000000000000001'' =
     (demo_store, Response 400
        (Fail ''Cannot delete category. Products are associated with this category''
           ''CATEGORY_IN_USE'')) \<and>
   snd (deleteCategory sample_runtime demo_store ''000000000000000000000002'') =
     Response 200 (Done ''Category deleted successfully'') \<and>
   set (categories (fst (deleteCategory sample_runtime demo_store ''000000000000000000000002''))) =
     {\<lparr>cat_id = 1, cat_name = ''Books''\<rparr>}"
proof -
  have d: "distinct (map cat_id (categories demo_store))"
    by (simp add: demo_store_def)
  have cast0: "cast_ObjectId sample_runtime ''not-an-id'' = None"
    and cast7: "cast_ObjectId sample_runtime ''000000000000000000000007'' = Some 7"
    and cast1: "cast_ObjectId sample_runtime ''000000000000000000000001'' = Some 1"
    and cast2: "cast_ObjectId sample_runtime ''000000000000000000000002'' = Some 2"
    by (simp_all add: sample_runtime_def hex_digit_of_def)
  have absent: "\<forall>c \<in> set (categories demo_store). cat_id c \<noteq> 7"
    by (simp add: demo_store_def)
  have books: "\<lparr>cat_id = 1, cat_name = ''Books''\<rparr> \<in> set (categories demo_store)"
    and toys: "\<lparr>cat_id = 2, cat_name = ''Toys''\<rparr> \<in> set (categories demo_store)"
    by (simp_all add: demo_store_def)
  have in_use: "\<exists>p \<in> set (products demo_store). category p = ''Books''"
    and not_in_use: "\<forall>p \<in> set (products demo_store). category p \<noteq> ''Toys''"
    by (simp_all add: demo_store_def)
  note all = deleteCategory_outcomes[OF d, of sample_runtime]
  have "deleteCategory sample_runtime demo_store ''not-an-id'' =
      (demo_store, Response 500 (Fail ''Server error'' ''SERVER_ERROR''))"
    using all[of "''not-an-id''"] cast0 by blast
  moreover have "deleteCategory sample_runtime demo_store ''000000000000000000000007'' =
      (demo_store, Response 404 (Fail ''Category not found'' ''NOT_FOUND''))"
    using all[of "''000000000000000000000007''"] cast7 absent by blast
  moreover have "deleteCategory sample_runtime demo_store ''000000000000000000000001'' =
      (demo_store, Response 400
         (Fail ''Cannot delete category. Products are associated with this category''
            ''CATEGORY_IN_USE''))"
    using all[of "''000000000000000000000001''"] cast1 books in_use by force
  moreover have "snd (deleteCategory sample_runtime demo_store ''000000000000000000000002'') =
        Response 200 (Done ''Category deleted successfully'') \<and>
      set (categories (fst (deleteCategory sample_runtime demo_store ''000000000000000000000002''))) =
        set (categories demo_store) - {\<lparr>cat_id = 2, cat_name = ''Toys''\<rparr>}"
    using all[of "''000000000000000000000002''"] cast2 toys not_in_use by force
  moreover have "set (categories demo_store) - {\<lparr>cat_id = 2, cat_name = ''Toys''\<rparr>} =
      {\<lparr>cat_id = 1, cat_name = ''Books''\<rparr>}"
    by (auto simp: demo_store_def)
  ultimately show ?thesis using d by simp
qed

text \<open>
  An identifier that names no category does not always give 404: the text \<open>abc\<close> is no
  identifier, the lookup throws, and the answer is 500.
\<close>

theorem malformed_category_id_is_server_error:
  "cast_ObjectId sample_runtime ''abc'' = None \<and>
   deleteCategory sample_runtime demo_store ''abc'' =
     (demo_store, Response 500 (Fail ''Server error'' ''SERVER_ERROR''))"
  by (simp add: deleteCategory_def server_error_def sample_runtime_def)

section \<open>Properties of the authentication gate\<close>

text \<open>
  C9. A request to a protected route is answered with 401 and the error code
  \<open>UNAUTHORIZED\<close>, the handler is not run and the state is the one before, unless the
  \<open>Authorization\<close> header yields a non-empty bearer token, the token verifies, and the user
  identifier embedded in it is that of a stored user. A missing header, a header without
  the \<open>Bearer\<close> scheme or without a token, a token that \<open>jwt.verify\<close> rejects (malformed,
  signed with another key, expired) and an identifier of no user are all in this case.
\<close>

theorem protected_unauthorized:
  assumes "\<not> (\<exists>token decoded_id.
              bearer_token authorization = Some token \<and> token \<noteq> [] \<and>
              jwt_verify rt token = Some decoded_id \<and>
              (\<exists>u \<in> set (users st). user_id u = decoded_id))"
  shows "\<exists>message.
           protected rt authorization handler st = (st, Response 401 (Fail message ''UNAUTHORIZED''))"
proof (cases "bearer_token authorization")
  case None
  then show ?thesis by (simp add: protected_def protect_def unauthorized_def)
next
  case (Some token)
  show ?thesis
  proof (cases "token = []")
    case True
    with Some show ?thesis by (simp add: protected_def protect_def unauthorized_def)
  next
    case nonempty: False
    show ?thesis
    proof (cases "jwt_verify rt token")
      case None
      with Some nonempty show ?thesis by (simp add: protected_def protect_def unauthorized_def)
    next
      case (Some decoded_id)
      with assms \<open>bearer_token authorization = Some token\<close> nonempty
      have "\<forall>u \<in> set (users st). user_id u \<noteq> decoded_id" by blast
      then have "User_findById st decoded_id = None"
        by (simp add: User_findById_def find_None_iff_no_match)
      with Some \<open>bearer_token authorization = Some token\<close> nonempty show ?thesis
        by (simp add: protected_def protect_def unauthorized_def)
    qed
  qed
qed

theorem protected_unauthorized_witness:
  "protected sample_runtime None drop_toys demo_store =
     (demo_store, Response 401 (Fail ''Not authorized, no token provided'' ''UNAUTHORIZED'')) \<and>
   protected sample_runtime (Some ''Basic token-of-1'') drop_toys demo_store =
     (demo_store, Response 401 (Fail ''Not authorized, no token provided'' ''UNAUTHORIZED'')) \<and>
   protected sample_runtime (Some ''Bearer expired'') drop_toys demo_store =
     (demo_store, Response 401 (Fail ''Invalid or expired token'' ''UNAUTHORIZED'')) \<and>
   protected sample_runtime (Some ''Bearer token-of-9'') drop_toys demo_store =
     (demo_store, Response 401 (Fail ''User not found'' ''UNAUTHORIZED''))"
proof -
  have no_header: "\<not> (\<exists>token decoded_id.
      bearer_token None = Some token \<and> token \<noteq> [] \<and>
      jwt_verify sample_runtime token = Some decoded_id \<and>
      (\<exists>u \<in> set (users demo_store). user_id u = decoded_id))"
    by (simp add: bearer_token_def)
  have other_scheme: "\<not> (\<exists>token decoded_id.
      bearer_token (Some ''Basic token-of-1'') = Some token \<and> token \<noteq> [] \<and>
      jwt_verify sample_runtime token = Some decoded_id \<and>
      (\<exists>u \<in> set (users demo_store). user_id u = decoded_id))"
    by (simp add: bearer_token_def startsWith_def)
  have rejected: "\<not> (\<exists>token decoded_id.
      bearer_token (Some ''Bearer expired'') = Some token \<and> token \<noteq> [] \<and>
      jwt_verify sample_runtime token = Some decoded_id \<and>
      (\<exists>u \<in> set (users demo_store). user_id u = decoded_id))"
    by (simp add: bearer_token_def startsWith_def sample_runtime_def)
  have no_user: "\<not> (\<exists>token decoded_id.
      bearer_token (Some ''Bearer token-of-9'') = Some token \<and> token \<noteq> [] \<and>
      jwt_verify sample_runtime token = Some decoded_id \<and>
      (\<exists>u \<in> set (users demo_store). user_id u = decoded_id))"
    by (simp add: bearer_token_def startsWith_def sample_runtime_def demo_store_def)
  have gate1: "protect sample_runtime demo_store None =
      Inl (unauthorized ''Not authorized, no token provided'')"
    by (simp add: protect_def bearer_token_def)
  have gate2: "protect sample_runtime demo_store (Some ''Basic token-of-1'') =
      Inl (unauthorized ''Not authorized, no token provided'')"
    by (simp add: protect_def bearer_token_def startsWith_def)
  have gate3: "protect sample_runtime demo_store (Some ''Bearer expired'') =
      Inl (unauthorized ''Invalid or expired token'')"
    by (simp add: protect_def bearer_token_def startsWith_def sample_runtime_def)
  have gate4: "protect sample_runtime demo_store (Some ''Bearer token-of-9'') =
      Inl (unauthorized ''User not found'')"
    by (simp add: protect_def bearer_token_def startsWith_def sample_runtime_def
        User_findById_def demo_store_def)
  have "protected sample_runtime None drop_toys demo_store =
      (demo_store, Response 401 (Fail ''Not authorized, no token provided'' ''UNAUTHORIZED''))"
    using protected_unauthorized[OF no_header, of drop_toys] gate1
    by (auto simp: protected_def unauthorized_def)
  moreover have "protected sample_runtime (Some ''Basic token-of-1'') drop_toys demo_store =
      (demo_store, Response 401 (Fail ''Not authorized, no token provided'' ''UNAUTHORIZED''))"
    using protected_unauthorized[OF other_scheme, of drop_toys] gate2
    by (auto simp: protected_def unauthorized_def)
  moreover have "protected sample_runtime (Some ''Bearer expired'') drop_toys demo_store =
      (demo_store, Response 401 (Fail ''Invalid or expired token'' ''UNAUTHORIZED''))"
    using protected_unauthorized[OF rejected, of drop_toys] gate3
    by (auto simp: protected_def unauthorized_def)
  moreover have "protected sample_runtime (Some ''Bearer token-of-9'') drop_toys demo_store =
      (demo_store, Response 401 (Fail ''User not found'' ''UNAUTHORIZED''))"
    using protected_unauthorized[OF no_user, of drop_toys] gate4
    by (auto simp: protected_def unauthorized_def)
  ultimately show ?thesis by simp
qed

section \<open>Updating a product: the image list\<close>

lemmas request_defs = json_request_def form_request_def no_fields_def request_form_def

lemmas js_defs = supplied_def js_trim_def trim_def is_space_def ToNumber_def

lemmas update_defs = updateProduct_def validate_update_def category_exists_def
  reconcile_images_def existing_images_def images_assigned_def assign_scalars_def
  Product_save_def schema_valid_def Product_findById_def Category_findOne_name_def
  stored_images_def

lemmas create_defs = createProduct_def validate_create_def category_exists_def
  existing_images_def Product_create_def schema_valid_def Category_findOne_name_def
  is_image_def startsWith_def

lemmas sample_defs = sample_runtime_def digit_of_def hex_digit_of_def stringify_def

lemma cast_images_strings: "cast_images (map JStr xs) = Some xs"
  by (induction xs) auto

lemma replace_first_frame:
  "find (\<lambda>q. ident q = i) ps = Some p \<Longrightarrow> f p' = f p \<Longrightarrow> ident p' = i \<Longrightarrow>
     map f (replace_first i p' ps) = map f ps"
  by (induction ps) (auto split: if_splits)

lemma find_Some_holds: "find P xs = Some x \<Longrightarrow> P x"
  by (induction xs) (auto split: if_splits)

lemma find_images_cong:
  "map (\<lambda>p. (ident p, images p)) ps = map (\<lambda>p. (ident p, images p)) qs \<Longrightarrow>
     map_option images (find (\<lambda>p. ident p = i) ps) = map_option images (find (\<lambda>p. ident p = i) qs)"
  by (induction ps arbitrary: qs) auto

lemma assign_scalars_frame:
  "assign_scalars rt product nm pr cat stk = Some product1 \<Longrightarrow>
     ident product1 = ident product \<and> images product1 = images product"
  by (auto simp: assign_scalars_def split: option.splits if_splits)

text \<open>
  The ways \<open>updateProduct\<close> ends: before anything was done, with the store as it was; with
  500 after the uploads; or with the document saved.
\<close>

lemma updateProduct_elim:
  assumes "updateProduct rt st i req = (st', resp)"
  obtains (rejected) "st' = st" "\<forall>pl. resp \<noteq> Response 200 pl"
  | (failed) product flds files where
      "Product_findById st i = Some product" "request_form req = Some (flds, files)"
      "st' = st\<lparr>uploads := fst (reconcile_images rt (uploads st) product (multipart req) flds files)\<rparr>"
      "resp = server_error"
  | (saved) product flds files product1 assign product2 where
      "Product_findById st i = Some product" "request_form req = Some (flds, files)"
      "validate_update rt (supplied (flds ''name'')) (supplied (flds ''price''))
         (supplied (flds ''category'')) (supplied (flds ''stock'')) = Some []"
      "assign_scalars rt product (supplied (flds ''name'')) (supplied (flds ''price''))
         (supplied (flds ''category'')) (supplied (flds ''stock'')) = Some product1"
      "images_assigned req files (supplied (flds ''existingImages''))
         (snd (reconcile_images rt (uploads st) product (multipart req) flds files)) = Some assign"
      "(if assign
        then map_option (\<lambda>imgs. product1\<lparr>images := imgs\<rparr>)
               (cast_images (snd (reconcile_images rt (uploads st) product (multipart req) flds files)))
        else Some product1) = Some product2"
      "Product_save
         (st\<lparr>uploads := fst (reconcile_images rt (uploads st) product (multipart req) flds files)\<rparr>)
         product2 = Some st'"
      "resp = Response 200 (Done_product ''Product updated successfully'' product2)"
  using assms
  unfolding updateProduct_def Let_def
  by (auto simp: server_error_def invalid_category_def
      split: option.splits prod.splits bool.splits if_splits)

lemma reconcile_images_unchanged:
  assumes "files = No_files" "\<not> truthy (supplied (flds ''existingImages''))"
    and "mp \<or> (\<forall>v vs. flds ''images'' \<noteq> JArr (v # vs))"
  shows "reconcile_images rt calls product mp flds files = (calls, map JStr (images product))"
  using assms
  by (auto simp: reconcile_images_def existing_images_def Let_def split: jsval.splits list.splits)

text \<open>
  Without files, without a truthy \<open>existingImages\<close> and, when the request is not multipart,
  without a non-empty \<open>images\<close> array, an update leaves every stored image list as it was
  and calls the media host not at all.
\<close>

lemma updateProduct_images_frame:
  assumes "\<And>flds files. request_form req = Some (flds, files) \<Longrightarrow>
             files = No_files \<and> \<not> truthy (supplied (flds ''existingImages'')) \<and>
             (multipart req \<or> (\<forall>v vs. flds ''images'' \<noteq> JArr (v # vs)))"
  shows "map (\<lambda>p. (ident p, images p)) (products (fst (updateProduct rt st i req))) =
           map (\<lambda>p. (ident p, images p)) (products st) \<and>
         uploads (fst (updateProduct rt st i req)) = uploads st"
proof -
  obtain st' resp where res: "updateProduct rt st i req = (st', resp)"
    by (cases "updateProduct rt st i req")
  from res show ?thesis
  proof (cases rule: updateProduct_elim)
    case rejected
    with res show ?thesis by simp
  next
    case (failed product flds files)
    with assms[OF failed(2)] res show ?thesis
      by (simp add: reconcile_images_unchanged)
  next
    case (saved product flds files product1 assign product2)
    from assms[OF saved(2)]
    have rec: "reconcile_images rt (uploads st) product (multipart req) flds files =
        (uploads st, map JStr (images product))"
      by (simp add: reconcile_images_unchanged)
    have p1: "ident product1 = ident product" "images product1 = images product"
      using assign_scalars_frame[OF saved(4)] by simp_all
    have i: "ident product = i"
      using saved(1) find_Some_holds[of "\<lambda>p. ident p = i" "products st" product]
      by (simp add: Product_findById_def)
    have p2: "ident product2 = i \<and> images product2 = images product"
      using saved(6) p1 i by (auto simp: rec cast_images_strings split: if_splits)
    have "products st' = replace_first i product2 (products st)" "uploads st' = uploads st"
      using saved(7) p2 by (auto simp: Product_save_def rec split: if_splits)
    moreover have "map (\<lambda>p. (ident p, images p)) (replace_first i product2 (products st)) =
        map (\<lambda>p. (ident p, images p)) (products st)"
      using saved(1) p2 i
      by (intro replace_first_frame[where p = product]) (simp_all add: Product_findById_def)
    ultimately show ?thesis using res by simp
  qed
qed

lemma stored_images_frame:
  "map (\<lambda>p. (ident p, images p)) (products st') = map (\<lambda>p. (ident p, images p)) (products st) \<Longrightarrow>
     stored_images st' i = stored_images st i"
  unfolding stored_images_def Product_findById_def by (rule find_images_cong)

text \<open>
  C1. An update that supplies no uploaded files, no \<open>existingImages\<close> field and no
  \<open>images\<close> list, whether it is multipart or JSON, leaves the stored image list of the
  product as it was, in length and content; so it does for every other product, and the
  media host is not called.
\<close>

theorem update_without_image_fields_keeps_images:
  assumes "\<forall>f. parsed req = Some f \<longrightarrow>
             form_files f = No_files \<and> form_fields f ''existingImages'' = JUndefined"
    and "\<forall>b. body req = Some b \<longrightarrow>
             b ''existingImages'' = JUndefined \<and> b ''images'' = JUndefined"
  shows "stored_images (fst (updateProduct rt st i req)) i = stored_images st i \<and>
         map (\<lambda>p. (ident p, images p)) (products (fst (updateProduct rt st i req))) =
           map (\<lambda>p. (ident p, images p)) (products st) \<and>
         uploads (fst (updateProduct rt st i req)) = uploads st"
proof -
  have "files = No_files \<and> \<not> truthy (supplied (flds ''existingImages'')) \<and>
        (multipart req \<or> (\<forall>v vs. flds ''images'' \<noteq> JArr (v # vs)))"
    if "request_form req = Some (flds, files)" for flds files
    using that assms by (auto simp: request_form_def supplied_def split: if_splits)
  then have frame:
    "map (\<lambda>p. (ident p, images p)) (products (fst (updateProduct rt st i req))) =
       map (\<lambda>p. (ident p, images p)) (products st) \<and>
     uploads (fst (updateProduct rt st i req)) = uploads st"
    by (rule updateProduct_images_frame)
  with stored_images_frame[of "fst (updateProduct rt st i req)" st i] show ?thesis
    by blast
qed

theorem update_without_image_fields_keeps_images_witness:
  "stored_images demo_store 10 = Some (images atlas) \<and>
   length (images atlas) = 3 \<and>
   stored_images
     (fst (updateProduct sample_runtime demo_store 10
        (json_request (no_fields(''name'' := JStr ''Atlas 2''))))) 10 = Some (images atlas) \<and>
   map_option name
     (Product_findById
        (fst (updateProduct sample_runtime demo_store 10
           (json_request (no_fields(''name'' := JStr ''Atlas 2''))))) 10) = Some ''Atlas 2''"
proof -
  let ?req = "json_request (no_fields(''name'' := JStr ''Atlas 2''))"
  have no_form: "\<forall>f. parsed ?req = Some f \<longrightarrow>
      form_files f = No_files \<and> form_fields f ''existingImages'' = JUndefined"
    by (simp add: json_request_def)
  have no_lists: "\<forall>b. body ?req = Some b \<longrightarrow>
      b ''existingImages'' = JUndefined \<and> b ''images'' = JUndefined"
    by (simp add: json_request_def no_fields_def)
  have before: "stored_images demo_store 10 = Some (images atlas)"
    by (simp add: stored_images_def Product_findById_def demo_store_def atlas_def)
  have renamed: "map_option name
      (Product_findById (fst (updateProduct sample_runtime demo_store 10 ?req)) 10) =
      Some ''Atlas 2''"
    by (simp add: request_defs js_defs update_defs demo_store_def)
  show ?thesis
    using update_without_image_fields_keeps_images[OF no_form no_lists, of sample_runtime demo_store 10]
      before renamed
    by (simp add: atlas_def)
qed

text \<open>
  C10. A JSON update whose \<open>images\<close> field is an empty array and which has no
  \<open>existingImages\<close> field leaves the stored image list of the product as it was: an empty
  flat URL list does not clear the images. And whatever the request, the stored list of
  the product differs after the update only if the request carried files, a truthy
  \<open>existingImages\<close> field or, not being multipart, a non-empty \<open>images\<close> array.
\<close>

theorem update_empty_images_array_keeps_images:
  "(\<not> multipart req \<and> body req = Some b \<and> b ''images'' = JArr [] \<and>
    b ''existingImages'' = JUndefined \<longrightarrow>
      stored_images (fst (updateProduct rt st i req)) i = stored_images st i \<and>
      uploads (fst (updateProduct rt st i req)) = uploads st) \<and>
   (stored_images (fst (updateProduct rt st i req)) i \<noteq> stored_images st i \<longrightarrow>
      (\<exists>flds files. request_form req = Some (flds, files) \<and>
         (files \<noteq> No_files \<or> truthy (supplied (flds ''existingImages'')) \<or>
          \<not> multipart req \<and> (\<exists>v vs. flds ''images'' = JArr (v # vs)))))"
proof (rule conjI)
  show "\<not> multipart req \<and> body req = Some b \<and> b ''images'' = JArr [] \<and>
    b ''existingImages'' = JUndefined \<longrightarrow>
      stored_images (fst (updateProduct rt st i req)) i = stored_images st i \<and>
      uploads (fst (updateProduct rt st i req)) = uploads st"
  proof (rule impI)
    assume a: "\<not> multipart req \<and> body req = Some b \<and> b ''images'' = JArr [] \<and>
      b ''existingImages'' = JUndefined"
    have "files = No_files \<and> \<not> truthy (supplied (flds ''existingImages'')) \<and>
          (multipart req \<or> (\<forall>v vs. flds ''images'' \<noteq> JArr (v # vs)))"
      if "request_form req = Some (flds, files)" for flds files
      using that a by (auto simp: request_form_def supplied_def)
    then have "map (\<lambda>p. (ident p, images p)) (products (fst (updateProduct rt st i req))) =
         map (\<lambda>p. (ident p, images p)) (products st) \<and>
       uploads (fst (updateProduct rt st i req)) = uploads st"
      by (rule updateProduct_images_frame)
    with stored_images_frame[of "fst (updateProduct rt st i req)" st i]
    show "stored_images (fst (updateProduct rt st i req)) i = stored_images st i \<and>
        uploads (fst (updateProduct rt st i req)) = uploads st"
      by blast
  qed
next
  show "stored_images (fst (updateProduct rt st i req)) i \<noteq> stored_images st i \<longrightarrow>
      (\<exists>flds files. request_form req = Some (flds, files) \<and>
         (files \<noteq> No_files \<or> truthy (supplied (flds ''existingImages'')) \<or>
          \<not> multipart req \<and> (\<exists>v vs. flds ''images'' = JArr (v # vs))))"
  proof (rule impI, rule ccontr)
    assume changed: "stored_images (fst (updateProduct rt st i req)) i \<noteq> stored_images st i"
    assume "\<not> (\<exists>flds files. request_form req = Some (flds, files) \<and>
         (files \<noteq> No_files \<or> truthy (supplied (flds ''existingImages'')) \<or>
          \<not> multipart req \<and> (\<exists>v vs. flds ''images'' = JArr (v # vs))))"
    then have "files = No_files \<and> \<not> truthy (supplied (flds ''existingImages'')) \<and>
        (multipart req \<or> (\<forall>v vs. flds ''images'' \<noteq> JArr (v # vs)))"
      if "request_form req = Some (flds, files)" for flds files
      using that by blast
    then have "map (\<lambda>p. (ident p, images p)) (products (fst (updateProduct rt st i req))) =
         map (\<lambda>p. (ident p, images p)) (products st) \<and>
       uploads (fst (updateProduct rt st i req)) = uploads st"
      by (rule updateProduct_images_frame)
    with stored_images_frame[of "fst (updateProduct rt st i req)" st i] changed
    show False by blast
  qed
qed

theorem update_empty_images_array_keeps_images_witness:
  "stored_images
     (fst (updateProduct sample_runtime demo_store 10
        (json_request (no_fields(''images'' := JArr []))))) 10 = Some (images atlas) \<and>
   stored_images demo_store 10 = Some (images atlas)"
proof -
  let ?b = "no_fields(''images'' := JArr [])"
  have shape: "\<not> multipart (json_request ?b) \<and> body (json_request ?b) = Some ?b \<and>
      ?b ''images'' = JArr [] \<and> ?b ''existingImages'' = JUndefined"
    by (simp add: json_request_def no_fields_def)
  have before: "stored_images demo_store 10 = Some (images atlas)"
    by (simp add: stored_images_def Product_findById_def demo_store_def atlas_def)
  from update_empty_images_array_keeps_images[of "json_request ?b" ?b sample_runtime demo_store 10]
    shape
  have "stored_images (fst (updateProduct sample_runtime demo_store 10 (json_request ?b))) 10 =
      stored_images demo_store 10"
    by blast
  with before show ?thesis by simp
qed

text \<open>
  The images can be cleared without a multipart request: a JSON body whose
  \<open>existingImages\<close> is the text \<open>[]\<close> empties the list of a product that had three images.
\<close>

theorem json_keep_list_clears_images:
  "\<not> multipart (json_request (no_fields(''existingImages'' := JStr ''[]''))) \<and>
   stored_images demo_store 10 = Some (images atlas) \<and>
   length (images atlas) = 3 \<and>
   updateProduct sample_runtime demo_store 10
     (json_request (no_fields(''existingImages'' := JStr ''[]''))) =
     (demo_store\<lparr>products := [atlas\<lparr>images := []\<rparr>]\<rparr>,
      Response 200 (Done_product ''Product updated successfully'' (atlas\<lparr>images := []\<rparr>))) \<and>
   stored_images
     (fst (updateProduct sample_runtime demo_store 10
        (json_request (no_fields(''existingImages'' := JStr ''[]''))))) 10 = Some []"
proof -
  have run: "updateProduct sample_runtime demo_store 10
      (json_request (no_fields(''existingImages'' := JStr ''[]''))) =
      (demo_store\<lparr>products := [atlas\<lparr>images := []\<rparr>]\<rparr>,
       Response 200 (Done_product ''Product updated successfully'' (atlas\<lparr>images := []\<rparr>)))"
    by (simp add: request_defs js_defs update_defs demo_store_def atlas_def sample_runtime_def)
  have before: "stored_images demo_store 10 = Some (images atlas)"
    by (simp add: stored_images_def Product_findById_def demo_store_def atlas_def)
  have after: "stored_images (demo_store\<lparr>products := [atlas\<lparr>images := []\<rparr>]\<rparr>) 10 = Some []"
    by (simp add: stored_images_def Product_findById_def atlas_def)
  show ?thesis
    using before after by (simp add: run) (simp add: json_request_def atlas_def)
qed

section \<open>Updating a product: the scalar fields\<close>

text \<open>
  C2. A JSON update whose \<open>stock\<close> is the number 0 does not set the stock: the field
  is read as \<open>fields.stock ? ... : undefined\<close>, so the falsy 0 counts as not supplied, the
  request succeeds and the stored stock is the old one.
\<close>

theorem update_json_stock_zero_ignored:
  "stock atlas = Fin 5 \<and>
   Product_findById demo_store 10 = Some atlas \<and>
   updateProduct sample_runtime demo_store 10 (json_request (no_fields(''stock'' := JNum (Fin 0)))) =
     (demo_store, Response 200 (Done_product ''Product updated successfully'' atlas))"
proof -
  have "updateProduct sample_runtime demo_store 10
      (json_request (no_fields(''stock'' := JNum (Fin 0)))) =
      (demo_store, Response 200 (Done_product ''Product updated successfully'' atlas))"
    by (simp add: request_defs js_defs update_defs demo_store_def atlas_def)
  then show ?thesis
    by (simp add: Product_findById_def demo_store_def atlas_def)
qed

section \<open>The kept image references\<close>














lemmas domain_defs = of_media_domain_def url_host_def url_authority_def media_host_def
  suffix_to_prefix



text \<open>
  The test is on the text of the URL, not on its host: a URL of another host whose path
  includes \<open>cloudinary.com\<close> passes it and is stored.
\<close>

lemma foreign_url_with_marker_is_stored:
  "\<not> of_media_domain ''http://evil.example/cloudinary.com/x.png'' \<and>
   stored_images
     (fst (updateProduct sample_runtime demo_store 10
        (form_request
           (no_fields
              (''existingImages'' :=
                 JArr [JStr (stringify [''http://evil.example/cloudinary.com/x.png''])]))
           No_files))) 10 =
     Some [''http://evil.example/cloudinary.com/x.png'']"
proof -
  have "\<not> of_media_domain ''http://evil.example/cloudinary.com/x.png''"
    by (simp add: domain_defs)
  moreover have "updateProduct sample_runtime demo_store 10
      (form_request
         (no_fields
            (''existingImages'' :=
               JArr [JStr (stringify [''http://evil.example/cloudinary.com/x.png''])]))
         No_files) =
      (demo_store\<lparr>products := [atlas\<lparr>images := [''http://evil.example/cloudinary.com/x.png'']\<rparr>]\<rparr>,
       Response 200
         (Done_product ''Product updated successfully''
            (atlas\<lparr>images := [''http://evil.example/cloudinary.com/x.png'']\<rparr>)))"
    by (simp add: request_defs js_defs update_defs sample_defs demo_store_def atlas_def)
  ultimately show ?thesis
    by (simp add: stored_images_def Product_findById_def atlas_def)
qed


section \<open>Creating a product: validation and the category check\<close>

lemma num_le0_iff: "n \<noteq> NaN \<Longrightarrow> num_le0 n \<longleftrightarrow> \<not> num_gt0 n"
  by (cases n) auto

lemma num_lt0_iff: "n \<noteq> NaN \<Longrightarrow> num_lt0 n \<longleftrightarrow> \<not> num_ge n 0"
  by (cases n) auto

lemma price_check_rule:
  "numeric_field rt pr \<Longrightarrow> (\<not> truthy pr \<or> num_le0 (ToNumber rt pr)) \<longleftrightarrow> \<not> rule_price rt pr"
  by (cases pr) (auto simp: numeric_field_def rule_price_def ToNumber_def num_le0_iff)

lemma stock_check_rule:
  "numeric_field rt stk \<Longrightarrow>
     (stk = JUndefined \<or> num_lt0 (ToNumber rt stk)) \<longleftrightarrow> \<not> rule_stock rt stk"
  by (auto simp: numeric_field_def rule_stock_def num_lt0_iff)

lemma name_check_rule:
  "text_field nm \<Longrightarrow>
     (if \<not> truthy nm then Some True else map_option (\<lambda>s. length s < 2) (js_trim nm)) =
       Some (\<not> rule_name nm)"
  by (cases nm) (auto simp: text_field_def rule_name_def js_trim_def trim_def)

lemma category_check_rule:
  "text_field cat \<Longrightarrow>
     (if \<not> truthy cat then Some True else map_option (\<lambda>s. length s = 0) (js_trim cat)) =
       Some (\<not> rule_category cat)"
  by (cases cat) (auto simp: text_field_def rule_category_def js_trim_def trim_def)

lemma validate_create_failing:
  assumes "text_field nm" "text_field cat" "numeric_field rt pr" "numeric_field rt stk"
  shows "\<exists>errors. validate_create rt nm pr cat stk = Some errors \<and>
           map fst errors = failing_fields rt nm pr cat stk"
  unfolding validate_create_def name_check_rule[OF assms(1)] category_check_rule[OF assms(2)]
    price_check_rule[OF assms(3)] stock_check_rule[OF assms(4)] failing_fields_def
  by simp

lemma rules_text_field: "rule_name v \<Longrightarrow> text_field v" "rule_category v \<Longrightarrow> text_field v"
  by (auto simp: rule_name_def rule_category_def text_field_def split: jsval.splits)

lemma rules_numeric_field:
  "rule_price rt v \<Longrightarrow> numeric_field rt v" "rule_stock rt v \<Longrightarrow> numeric_field rt v"
  by (auto simp: rule_price_def rule_stock_def numeric_field_def)

lemma validate_create_passes:
  assumes "rule_name nm" "rule_price rt pr" "rule_category cat" "rule_stock rt stk"
  shows "validate_create rt nm pr cat stk = Some []"
proof -
  from validate_create_failing[OF rules_text_field(1)[OF assms(1)] rules_text_field(2)[OF assms(3)]
      rules_numeric_field(1)[OF assms(2)] rules_numeric_field(2)[OF assms(4)]]
  obtain errors where "validate_create rt nm pr cat stk = Some errors"
    "map fst errors = failing_fields rt nm pr cat stk" by blast
  with assms show ?thesis by (simp add: failing_fields_def)
qed

text \<open>
  A price that is no number passes the validation: line 190 tests
  \<open>!price || price <= 0\<close>, and a comparison with NaN is false.
\<close>

lemma validate_create_accepts_price_abc:
  "validate_create sample_runtime (JStr ''Globe'') (JStr ''abc'') (JStr ''Books'') (JStr ''1'') =
     Some []"
  by (simp add: validate_create_def js_defs sample_defs)

text \<open>
  C6. A price that is no number fails the rule "price greater than 0", so that \<open>price\<close> is
  the one failing field, and yet a multipart request with the price \<open>abc\<close> and an image
  file gets no validation error: the file is uploaded, \<open>Product.create\<close> rejects the
  price, and the answer is 500.
\<close>

theorem createProduct_price_not_a_number:
  "\<not> rule_price sample_runtime (JStr ''abc'') \<and>
   failing_fields sample_runtime (JStr ''Globe'') (JStr ''abc'') (JStr ''Books'') (JStr ''1'') =
     [''price''] \<and>
   createProduct sample_runtime demo_store create_priced_abc =
     (demo_store\<lparr>uploads := [''/tmp/u1'']\<rparr>,
      Response 500 (Fail ''Server error'' ''SERVER_ERROR''))"
proof (intro conjI)
  show "\<not> rule_price sample_runtime (JStr ''abc'')"
    by (simp add: rule_price_def ToNumber_def sample_defs)
  show "failing_fields sample_runtime (JStr ''Globe'') (JStr ''abc'') (JStr ''Books'')
      (JStr ''1'') = [''price'']"
    by (simp add: failing_fields_def rule_name_def rule_price_def rule_category_def
        rule_stock_def ToNumber_def trim_def is_space_def sample_defs)
  show "createProduct sample_runtime demo_store create_priced_abc =
      (demo_store\<lparr>uploads := [''/tmp/u1'']\<rparr>,
       Response 500 (Fail ''Server error'' ''SERVER_ERROR''))"
    unfolding create_priced_abc_def
    by (simp add: request_defs js_defs create_defs sample_defs demo_store_def Let_def
        server_error_def)
qed

text \<open>
  C7. Whenever the category of a creation request, trimmed, is the name of no category,
  the state after the request is the state before: no file is uploaded and no product
  written. When the request moreover passes the four field rules, the answer is the 400
  \<open>Category does not exist\<close> with the error map \<open>{category: 'Invalid category'}\<close>.
\<close>

theorem createProduct_unknown_category:
  assumes "request_form req = Some (flds, files)"
    and "first_or_self (flds ''category'') = JStr c"
    and "\<forall>k \<in> set (categories st). cat_name k \<noteq> trim c"
  shows "fst (createProduct rt st req) = st \<and>
         (rule_name (first_or_self (flds ''name'')) \<and>
          rule_price rt (first_or_self (flds ''price'')) \<and>
          rule_category (JStr c) \<and>
          rule_stock rt (first_or_self (flds ''stock'')) \<longrightarrow>
            createProduct rt st req =
              (st, Response 400
                 (Invalid ''Category does not exist'' [(''category'', ''Invalid category'')])))"
proof -
  have missing: "category_exists st (JStr c) = Some False"
    using assms(3)
    by (simp add: category_exists_def js_trim_def Category_findOne_name_def
        find_None_iff_no_match)
  have unchanged: "fst (createProduct rt st req) = st"
    using assms(1,2) missing
    by (simp add: createProduct_def Let_def split: option.splits)
  have "createProduct rt st req =
      (st, Response 400 (Invalid ''Category does not exist'' [(''category'', ''Invalid category'')]))"
    if "rule_name (first_or_self (flds ''name''))"
      "rule_price rt (first_or_self (flds ''price''))"
      "rule_category (JStr c)"
      "rule_stock rt (first_or_self (flds ''stock''))"
    using validate_create_passes[OF that] assms(1,2) missing
    by (simp add: createProduct_def invalid_category_def)
  with unchanged show ?thesis by blast
qed

theorem createProduct_unknown_category_witness:
  "createProduct sample_runtime demo_store (create_json (JNum (Fin 3)) ''Nope'' (JNum (Fin 1))) =
     (demo_store,
      Response 400 (Invalid ''Category does not exist'' [(''category'', ''Invalid category'')]))"
proof -
  let ?flds = "no_fields
      (''name'' := JStr ''Globe'', ''price'' := JNum (Fin 3), ''category'' := JStr ''Nope'',
       ''stock'' := JNum (Fin 1))"
  let ?req = "create_json (JNum (Fin 3)) ''Nope'' (JNum (Fin 1))"
  have form: "request_form ?req = Some (?flds, No_files)"
    by (simp add: create_json_def json_request_def request_form_def)
  have cat: "first_or_self (?flds ''category'') = JStr ''Nope''"
    by simp
  have unknown: "\<forall>k \<in> set (categories demo_store). cat_name k \<noteq> trim ''Nope''"
    by (simp add: demo_store_def trim_def is_space_def)
  have rules: "rule_name (first_or_self (?flds ''name'')) \<and>
      rule_price sample_runtime (first_or_self (?flds ''price'')) \<and>
      rule_category (JStr ''Nope'') \<and>
      rule_stock sample_runtime (first_or_self (?flds ''stock''))"
    by (simp add: rule_name_def rule_price_def rule_category_def rule_stock_def ToNumber_def
        trim_def is_space_def)
  from createProduct_unknown_category[OF form cat unknown, of sample_runtime] rules
  show ?thesis by blast
qed

text \<open>
  A request that names a category that does not exist is answered with the validation
  error when one of its fields is invalid; and a category name that matches only after
  trimming is accepted.
\<close>

theorem unknown_category_not_always_invalid_category:
  "''Nope'' \<notin> set (map cat_name (categories demo_store)) \<and>
   createProduct sample_runtime demo_store (create_json (JNum (Fin 0)) ''Nope'' (JNum (Fin 1))) =
     (demo_store,
      Response 400 (Invalid ''Validation error'' [(''price'', ''Price must be greater than 0'')])) \<and>
   '' Books '' \<notin> set (map cat_name (categories demo_store)) \<and>
   snd (createProduct sample_runtime demo_store
          (create_json (JNum (Fin 3)) '' Books '' (JNum (Fin 1)))) =
     Response 201
       (Done_product ''Product created successfully''
          \<lparr>ident = 11, name = ''Globe'', price = Fin 3, category = ''Books'', stock = Fin 1,
           images = []\<rparr>)"
proof -
  have "''Nope'' \<notin> set (map cat_name (categories demo_store))"
    and "'' Books '' \<notin> set (map cat_name (categories demo_store))"
    by (simp_all add: demo_store_def)
  moreover have "createProduct sample_runtime demo_store
      (create_json (JNum (Fin 0)) ''Nope'' (JNum (Fin 1))) =
      (demo_store,
       Response 400 (Invalid ''Validation error'' [(''price'', ''Price must be greater than 0'')]))"
    unfolding create_json_def
    by (simp add: request_defs js_defs create_defs)
  moreover have "snd (createProduct sample_runtime demo_store
      (create_json (JNum (Fin 3)) '' Books '' (JNum (Fin 1)))) =
      Response 201
        (Done_product ''Product created successfully''
           \<lparr>ident = 11, name = ''Globe'', price = Fin 3, category = ''Books'', stock = Fin 1,
            images = []\<rparr>)"
    unfolding create_json_def
    by (simp add: request_defs js_defs create_defs sample_defs demo_store_def Let_def)
  ultimately show ?thesis by simp
qed

section \<open>Properties of the listing\<close>

lemmas listing_defs = getProducts_def Product_find_def name_filter_def category_filter_def
  Product_sort_def field_key_def sort_field_def descending_def pageNum_def limitNum_def

text \<open>How the keys compare: names as strings, finite prices as numbers.\<close>

lemma field_key_name: "field_key ''name'' a \<le> field_key ''name'' b \<longleftrightarrow> name a \<le> name b"
  by (simp add: field_key_def)

lemma field_key_price:
  "price a = Fin x \<Longrightarrow> price b = Fin y \<Longrightarrow>
     field_key ''price'' a \<le> field_key ''price'' b \<longleftrightarrow> x \<le> y"
  by (auto simp: field_key_def)


lemma pages_2_by_5: "\<lceil>(2 :: rat) / 5\<rceil> = 1"
  by (rule ceiling_unique) simp_all

lemma pos_int_positive: "pos_int n = Some k \<Longrightarrow> 0 < k"
  by (cases n) (auto split: if_splits)


lemma pos_int_of_nat: "0 < k \<Longrightarrow> pos_int (Fin (of_nat k)) = Some k"
  by simp



text \<open>
  C4. With \<open>sortBy\<close> one of name, price, stock and category (name when the parameter is
  missing), the items are a window of the matches sorted by that field: descending when
  \<open>sortOrder\<close> is \<open>desc\<close>, ascending for every other value and when it is missing.
\<close>

theorem getProducts_sort_order:
  assumes "Product_find rt st q = Some found"
    and "pos_int (pageNum rt q) = Some p"
    and "pos_int (limitNum rt q) = Some l"
    and "q_sortBy q = Some f \<or> q_sortBy q = None \<and> f = ''name''"
    and "f \<in> set [''name'', ''price'', ''stock'', ''category'']"
  shows "\<exists>sorted_docs.
           getProducts rt st q =
             Response 200
               (Listing (take l (drop ((p - 1) * l) sorted_docs))
                  \<lparr>currentPage = p,
                   totalPages = nat \<lceil>(of_nat (length found) :: rat) / of_nat l\<rceil>,
                   totalItems = length found,
                   itemsPerPage = l\<rparr>) \<and>
           mset sorted_docs = mset found \<and>
           (if q_sortOrder q = Some ''desc''
            then sorted (rev (map (field_key f) sorted_docs))
            else sorted (map (field_key f) sorted_docs))"
proof -
  have field: "sort_field q = f"
    using assms(4) by (auto simp: sort_field_def)
  have dir: "descending q \<longleftrightarrow> q_sortOrder q = Some ''desc''"
    by (simp add: descending_def split: option.splits)
  define sorted_docs where
    "sorted_docs = (if descending q then rev (sort_key (field_key f) found)
                    else sort_key (field_key f) found)"
  have s: "Product_sort rt (sort_field q) (descending q) found = Some sorted_docs"
    using assms(5) by (simp add: Product_sort_def field sorted_docs_def)
  have "getProducts rt st q =
      Response 200
        (Listing (take l (drop ((p - 1) * l) sorted_docs))
           \<lparr>currentPage = p,
            totalPages = nat \<lceil>(of_nat (length found) :: rat) / of_nat l\<rceil>,
            totalItems = length found,
            itemsPerPage = l\<rparr>)"
    using assms(1,2,3) s by (simp add: getProducts_def)
  moreover have "mset sorted_docs = mset found"
    by (simp add: sorted_docs_def)
  moreover have "if q_sortOrder q = Some ''desc''
      then sorted (rev (map (field_key f) sorted_docs))
      else sorted (map (field_key f) sorted_docs)"
    using dir by (simp add: sorted_docs_def rev_map)
  ultimately show ?thesis by blast
qed

theorem getProducts_sort_order_witness:
  "getProducts sample_runtime two_products
     (no_query\<lparr>q_sortBy := Some ''price'', q_sortOrder := Some ''desc''\<rparr>) =
     Response 200
       (Listing [item 1 ''Alpha'' 2, item 2 ''Beta'' 1]
          \<lparr>currentPage = 1, totalPages = 1, totalItems = 2, itemsPerPage = 5\<rparr>)"
proof -
  let ?q = "no_query\<lparr>q_sortBy := Some ''price'', q_sortOrder := Some ''desc''\<rparr>"
  have found: "Product_find sample_runtime two_products ?q = Some (products two_products)"
    by (simp add: Product_find_def name_filter_def category_filter_def no_query_def)
  have page: "pos_int (pageNum sample_runtime ?q) = Some 1"
    and limit: "pos_int (limitNum sample_runtime ?q) = Some 5"
    by (simp_all add: pageNum_def limitNum_def sample_defs no_query_def)
  have by_price: "q_sortBy ?q = Some ''price'' \<or> q_sortBy ?q = None \<and> ''price'' = ''name''"
    by simp
  have known: "''price'' \<in> set [''name'', ''price'', ''stock'', ''category'']"
    by simp
  have run: "getProducts sample_runtime two_products ?q =
      Response 200
        (Listing [item 1 ''Alpha'' 2, item 2 ''Beta'' 1]
           \<lparr>currentPage = 1, totalPages = 1, totalItems = 2, itemsPerPage = 5\<rparr>)"
    by (simp add: listing_defs sample_defs no_query_def two_products_def item_def pages_2_by_5)
  from getProducts_sort_order[OF found page limit by_price known] run
  show ?thesis by simp
qed

text \<open>
  An unrecognised \<open>sortOrder\<close> does not bring back the order by name: with
  \<open>sortBy=price\<close> and \<open>sortOrder=up\<close> the products come by ascending price, \<open>Beta\<close> before
  \<open>Alpha\<close>, while the order by ascending name (the query without parameters) is \<open>Alpha\<close>
  before \<open>Beta\<close>.
\<close>

theorem unrecognised_sort_order_keeps_sort_field:
  "getProducts sample_runtime two_products
     (no_query\<lparr>q_sortBy := Some ''price'', q_sortOrder := Some ''up''\<rparr>) =
     Response 200
       (Listing [item 2 ''Beta'' 1, item 1 ''Alpha'' 2]
          \<lparr>currentPage = 1, totalPages = 1, totalItems = 2, itemsPerPage = 5\<rparr>) \<and>
   getProducts sample_runtime two_products no_query =
     Response 200
       (Listing [item 1 ''Alpha'' 2, item 2 ''Beta'' 1]
          \<lparr>currentPage = 1, totalPages = 1, totalItems = 2, itemsPerPage = 5\<rparr>)"
proof (rule conjI)
  show "getProducts sample_runtime two_products
     (no_query\<lparr>q_sortBy := Some ''price'', q_sortOrder := Some ''up''\<rparr>) =
     Response 200
       (Listing [item 2 ''Beta'' 1, item 1 ''Alpha'' 2]
          \<lparr>currentPage = 1, totalPages = 1, totalItems = 2, itemsPerPage = 5\<rparr>)"
    by (simp add: listing_defs sample_defs no_query_def two_products_def item_def pages_2_by_5)
  show "getProducts sample_runtime two_products no_query =
     Response 200
       (Listing [item 1 ''Alpha'' 2, item 2 ''Beta'' 1]
          \<lparr>currentPage = 1, totalPages = 1, totalItems = 2, itemsPerPage = 5\<rparr>)"
    by (simp add: listing_defs sample_defs no_query_def two_products_def item_def pages_2_by_5)
qed

end
